theory Spec2Isabelle
  imports Complex_Main "HOL-Library.List_Lexorder" "HOL-Library.Char_ord"
begin

section \<open>Python values\<close>

text \<open>
  The call-start simulator (\<^verbatim>\<open>tools/simulate_start_call.py\<close>) receives its input as a
  Python dictionary, and the permission-matrix builder (\<^verbatim>\<open>tools/build_permission_matrix.py\<close>)
  reads its permission table with \<^verbatim>\<open>json.loads\<close>. Both are modelled over the values such a
  dictionary holds: \<^verbatim>\<open>None\<close>, booleans, integers, floats (by their real value; \<^verbatim>\<open>nan\<close>
  and the infinities are left out), strings, lists and dictionaries keyed by strings. A
  dictionary is an association list in insertion order; \<^verbatim>\<open>d.get(k)\<close> is \<open>map_of\<close>.
  These are the JSON values; each is a finite tree, none contains itself. Other Python
  objects (sets, bytes, tuples, keys that are no strings, instances of classes) are
  outside the model, and so is what the code does on them: \<^verbatim>\<open>json.dumps\<close>, for one,
  raises \<^verbatim>\<open>TypeError\<close> on a set.
\<close>

datatype pyval =
    PNone
  | PBool bool
  | PInt int
  | PFloat real
  | PStr string
  | PList "pyval list"
  | PDict "(string \<times> pyval) list"

text \<open>The exceptions the two scripts can raise on such values.\<close>

datatype pyexn =
    KeyError string
  | TypeError string
  | AttributeError string
  | ValueError string
  | RecursionError string

text \<open>Python truth value testing, as used by \<^verbatim>\<open>if x\<close> and \<^verbatim>\<open>if not x\<close>.\<close>

fun truthy :: "pyval \<Rightarrow> bool" where
  "truthy PNone = False"
| "truthy (PBool b) = b"
| "truthy (PInt i) = (i \<noteq> 0)"
| "truthy (PFloat x) = (x \<noteq> 0)"
| "truthy (PStr s) = (s \<noteq> [])"
| "truthy (PList xs) = (xs \<noteq> [])"
| "truthy (PDict kvs) = (kvs \<noteq> [])"

text \<open>Lists and dictionaries are unhashable: using one as a dictionary key or testing it
  for membership in a set raises \<^verbatim>\<open>TypeError\<close>.\<close>

fun hashable :: "pyval \<Rightarrow> bool" where
  "hashable (PList xs) = False"
| "hashable (PDict kvs) = False"
| "hashable v = True"

text \<open>Truth value of an optional string (\<^verbatim>\<open>None\<close> or a \<^verbatim>\<open>str\<close>): \<^verbatim>\<open>None\<close> and
  \<^verbatim>\<open>''\<close> are false.\<close>

fun truthy_str :: "string option \<Rightarrow> bool" where
  "truthy_str None = False"
| "truthy_str (Some s) = (s \<noteq> [])"

fun opt_str :: "string option \<Rightarrow> pyval" where
  "opt_str None = PNone"
| "opt_str (Some s) = PStr s"

text \<open>\<^verbatim>\<open>d[k] = v\<close> on a dictionary: an existing key keeps its position and takes the new
  value, a new key is appended.\<close>

fun dict_set :: "(string \<times> 'v) list \<Rightarrow> string \<Rightarrow> 'v \<Rightarrow> (string \<times> 'v) list" where
  "dict_set [] k v = [(k, v)]"
| "dict_set ((k', v') # kvs) k v =
     (if k' = k then (k, v) # kvs else (k', v') # dict_set kvs k v)"

section \<open>Converting values to text\<close>

text \<open>
  \<^verbatim>\<open>simulate_start_call.py\<close> converts values to text in two places:
  \<^verbatim>\<open>print('input:', input)\<close> (line 28) renders the input dictionary with \<^verbatim>\<open>repr\<close>, and
  \<^verbatim>\<open>json.dumps(entry, indent=2)\<close> (line 23) renders an audit entry. Both walk the value
  depth first, in the order of its elements, and raise where they meet a limit of the
  interpreter:

    \<^item> \<^verbatim>\<open>ValueError\<close> on an integer with more decimal digits than
      \<^verbatim>\<open>sys.get_int_max_str_digits()\<close> allows (4300 unless changed; \<^verbatim>\<open>0\<close> turns the limit
      off, and the interpreter accepts no other value below 640);
    \<^item> \<^verbatim>\<open>RecursionError\<close> when the nesting of lists and dictionaries uses up the
      recursion limit.

  The limits are not known to the program, so they are parameters of the model:
  \<open>int_max_str_digits\<close> is the first, and \<open>repr_room\<close> and \<open>json_room\<close> say how many
  nested conversions \<^verbatim>\<open>print\<close> and \<^verbatim>\<open>json.dumps\<close> can make beyond the four that the
  values built by the function itself need (an audit entry, its \<^verbatim>\<open>after\<close> snapshot, the
  modulations in it, a flag in them). Two things are taken for granted: the interpreter
  has the stack for these four, and standard output accepts every text written to it.
\<close>

record interpreter =
  int_max_str_digits :: nat
  repr_room :: nat
  json_room :: nat

text \<open>An integer has more than \<open>n\<close> decimal digits when its absolute value is at least
  \<open>10 ^ n\<close>.\<close>

definition too_long :: "interpreter \<Rightarrow> int \<Rightarrow> bool" where
  "too_long env i =
     (int_max_str_digits env \<noteq> 0 \<and> 10 ^ max 640 (int_max_str_digits env) \<le> \<bar>i\<bar>)"

text \<open>The first exception raised while the elements are converted in order.\<close>

fun first_raised :: "pyexn option list \<Rightarrow> pyexn option" where
  "first_raised [] = None"
| "first_raised (None # rest) = first_raised rest"
| "first_raised (Some e # rest) = Some e"

text \<open>What the conversion of a value raises, if anything, when \<open>k\<close> nested conversions
  are still available; the keys of a dictionary are strings and raise nothing.\<close>

fun render_exn :: "interpreter \<Rightarrow> nat \<Rightarrow> pyval \<Rightarrow> pyexn option" where
  "render_exn env 0 v = Some (RecursionError ''maximum recursion depth exceeded'')"
| "render_exn env (Suc k) (PInt i) =
     (if too_long env i
      then Some (ValueError ''Exceeds the limit for integer string conversion'')
      else None)"
| "render_exn env (Suc k) (PList xs) = first_raised (map (render_exn env k) xs)"
| "render_exn env (Suc k) (PDict kvs) =
     first_raised (map (\<lambda>kv. render_exn env k (snd kv)) kvs)"
| "render_exn env (Suc k) v = None"

text \<open>\<^verbatim>\<open>print(..., v)\<close> and \<^verbatim>\<open>json.dumps(v, indent=2)\<close>.\<close>

definition print_exn :: "interpreter \<Rightarrow> pyval \<Rightarrow> pyexn option" where
  "print_exn env v = render_exn env (Suc (Suc (Suc (Suc (repr_room env))))) v"

definition dumps_exn :: "interpreter \<Rightarrow> pyval \<Rightarrow> pyexn option" where
  "dumps_exn env v = render_exn env (Suc (Suc (Suc (Suc (json_room env))))) v"

section \<open>The mock tables of the call-start simulator\<close>

text \<open>
  Lines 9 to 19 of \<^verbatim>\<open>simulate_start_call.py\<close>: \<^verbatim>\<open>organizations\<close> is a dictionary from
  organization key to row, the other five tables are lists of rows. Rows are dictionaries
  with a fixed set of keys, read with \<^verbatim>\<open>row['key']\<close>; \<^verbatim>\<open>tool_id\<close> alone is read with
  \<^verbatim>\<open>org.get('tool_id')\<close> and may be absent.
\<close>

record organization =
  org_id :: string
  org_name :: string
  org_plan :: string
  org_tool_id :: "string option"
  org_created_by :: string

record org_member =
  m_id :: string
  m_organization_id :: string
  m_user_id :: string
  m_role :: string

record system_row =
  sys_id :: string
  sys_key :: string

record call_row =
  c_id :: string
  c_organization_id :: string
  c_system_id :: string
  c_status :: string
  c_started_at :: "string option"
  c_ended_at :: "string option"
  c_created_by :: string
  c_call_sid :: "string option"

record ai_run =
  ai_id :: string
  ai_call_id :: string
  ai_system_id :: string
  ai_model :: string
  ai_status :: string
  ai_started_at :: "string option"
  ai_completed_at :: "string option"
  ai_output :: "string option"

record audit_log =
  al_id :: string
  al_organization_id :: string
  al_user_id :: string
  al_system_id :: string
  al_resource_type :: string
  al_resource_id :: string
  al_action :: string
  al_before :: pyval
  al_after :: pyval
  al_created_at :: string

record db =
  organizations :: "string \<rightharpoonup> organization"
  org_members :: "org_member list"
  systems :: "system_row list"
  calls :: "call_row list"
  ai_runs :: "ai_run list"
  audit_logs :: "audit_log list"

text \<open>
  The values the run draws from outside: the results of \<^verbatim>\<open>uuid.uuid4()\<close> and \<^verbatim>\<open>now()\<close>,
  in the order of the calls (lines 56, 72, 76, 85, 92, 97). They are parameters of the
  model; \<open>sid_hex\<close> is \<^verbatim>\<open>uuid.uuid4().hex\<close>, of which the code keeps the first ten
  characters.
\<close>

record fresh =
  call_uuid :: string
  sid_hex :: string
  started_now :: string
  ai_uuid :: string
  intent_uuid :: string
  intent_requested_now :: string
  intent_created_now :: string
  audit_uuid :: string
  audit_now :: string

text \<open>The returned dictionary: \<^verbatim>\<open>call_id\<close> is present on success only.\<close>

record result =
  success :: bool
  call_id :: "string option"
  errors :: "(string \<times> string) list"

section \<open>The call-start workflow\<close>

text \<open>An audit entry as the dictionary it is in the code, keys in the order of the
  literals of lines 92 and 97.\<close>

definition audit_log_dict :: "audit_log \<Rightarrow> (string \<times> pyval) list" where
  "audit_log_dict e =
     [(''id'', PStr (al_id e)),
      (''organization_id'', PStr (al_organization_id e)),
      (''user_id'', PStr (al_user_id e)),
      (''system_id'', PStr (al_system_id e)),
      (''resource_type'', PStr (al_resource_type e)),
      (''resource_id'', PStr (al_resource_id e)),
      (''action'', PStr (al_action e)),
      (''before'', al_before e),
      (''after'', al_after e),
      (''created_at'', PStr (al_created_at e))]"

text \<open>\<^verbatim>\<open>write_audit\<close> (lines 21 to 23) appends the entry to \<^verbatim>\<open>audit_logs\<close> and then prints
  \<^verbatim>\<open>json.dumps(entry, indent=2)\<close>: when that raises, the entry is in the table already.
  The result is the exception raised, if any, and the tables afterwards.\<close>

definition write_audit :: "interpreter \<Rightarrow> audit_log \<Rightarrow> db \<Rightarrow> pyexn option \<times> db" where
  "write_audit env entry d =
     (dumps_exn env (PDict (audit_log_dict entry)),
      d\<lparr>audit_logs := audit_logs d @ [entry]\<rparr>)"

text \<open>\<^verbatim>\<open>organizations.get(k)\<close> for the value \<open>k\<close> of \<^verbatim>\<open>input['organization_id']\<close>: an
  unhashable key raises, a key that is not a string equals no key of the table.\<close>

definition organizations_get :: "db \<Rightarrow> pyval \<Rightarrow> pyexn + organization option" where
  "organizations_get d k =
     (if \<not> hashable k then Inl (TypeError ''unhashable type'')
      else case k of PStr s \<Rightarrow> Inr (organizations d s) | _ \<Rightarrow> Inr None)"

text \<open>\<^verbatim>\<open>{ s['key']: s['id'] for s in systems }\<close>: a later row replaces an earlier one with
  the same key.\<close>

definition system_map :: "system_row list \<Rightarrow> (string \<rightharpoonup> string)" where
  "system_map ss = foldl (\<lambda>m s. m(sys_key s \<mapsto> sys_id s)) Map.empty ss"

text \<open>What the checks of lines 30 to 53 hand to the rest of the function: the organization
  row, the actor, and the two resolved system ids.\<close>

record resolved =
  r_org :: organization
  r_actor :: string
  r_sys_cpid :: string
  r_sys_ai :: "string option"

text \<open>
  Lines 30 to 53. The result is an exception, a hard failure \<open>(code, message)\<close>, or the
  resolved context. The actor is \<^verbatim>\<open>None\<close> or a string.
\<close>

definition check_preconditions ::
  "db \<Rightarrow> (string \<times> pyval) list \<Rightarrow> string option \<Rightarrow> pyexn + ((string \<times> string) + resolved)" where
  "check_preconditions d input actor =
     (case (if truthy_str actor then actor else None) of
        None \<Rightarrow> Inr (Inl (''AUTH_REQUIRED'', ''Unauthenticated''))
      | Some a \<Rightarrow>
         (case map_of input ''organization_id'' of
            None \<Rightarrow> Inl (KeyError ''organization_id'')
          | Some k \<Rightarrow>
             (case organizations_get d k of
                Inl e \<Rightarrow> Inl e
              | Inr None \<Rightarrow> Inr (Inl (''CALL_START_ORG_NOT_FOUND'', ''Organization not found''))
              | Inr (Some org) \<Rightarrow>
                 (case find (\<lambda>m. m_organization_id m = org_id org \<and> m_user_id m = a)
                            (org_members d) of
                    None \<Rightarrow> Inr (Inl (''AUTH_ORG_MISMATCH'',
                                       ''Actor not authorized for organization''))
                  | Some member \<Rightarrow>
                     (let sm = system_map (systems d);
                          sys_cpid = sm ''system-cpid'';
                          sys_ai = sm ''system-ai''
                      in case (if truthy_str sys_cpid then sys_cpid else None) of
                           None \<Rightarrow> Inr (Inl (''CALL_START_SYS_MISSING'',
                                              ''Control system not registered''))
                         | Some cpid \<Rightarrow>
                             Inr (Inr \<lparr>r_org = org, r_actor = a,
                                       r_sys_cpid = cpid, r_sys_ai = sys_ai\<rparr>))))))"

text \<open>The row inserted at line 67 (the literal of lines 57 to 66).\<close>

definition pending_call_row :: "fresh \<Rightarrow> resolved \<Rightarrow> call_row" where
  "pending_call_row fr r =
     \<lparr>c_id = call_uuid fr, c_organization_id = org_id (r_org r),
      c_system_id = r_sys_cpid r, c_status = ''pending'', c_started_at = None,
      c_ended_at = None, c_created_by = r_actor r, c_call_sid = None\<rparr>"

text \<open>Line 72: \<^verbatim>\<open>'SW_' + uuid.uuid4().hex[:10]\<close>.\<close>

definition provider_call_sid :: "fresh \<Rightarrow> string" where
  "provider_call_sid fr = ''SW_'' @ take 10 (sid_hex fr)"

text \<open>Lines 74 to 76: the three assignments to the row.\<close>

definition accept_call :: "fresh \<Rightarrow> call_row \<Rightarrow> call_row" where
  "accept_call fr row =
     row\<lparr>c_call_sid := Some (provider_call_sid fr), c_status := ''in-progress'',
         c_started_at := Some (started_now fr)\<rparr>"

text \<open>The row of line 86, for the resolved id \<open>ai\<close> of \<^verbatim>\<open>system-ai\<close>.\<close>

definition new_ai_run :: "fresh \<Rightarrow> string \<Rightarrow> ai_run" where
  "new_ai_run fr ai =
     \<lparr>ai_id = ai_uuid fr, ai_call_id = call_uuid fr, ai_system_id = ai,
      ai_model = ''assemblyai-v1'', ai_status = ''queued'', ai_started_at = None,
      ai_completed_at = None, ai_output = None\<rparr>"

text \<open>The intent record of line 92.\<close>

definition intent_entry :: "fresh \<Rightarrow> resolved \<Rightarrow> audit_log" where
  "intent_entry fr r =
     \<lparr>al_id = intent_uuid fr, al_organization_id = org_id (r_org r),
      al_user_id = r_actor r, al_system_id = r_sys_cpid r,
      al_resource_type = ''calls'', al_resource_id = call_uuid fr,
      al_action = ''intent:recording_requested'', al_before = PNone,
      al_after = PDict [(''tool_id'', opt_str (org_tool_id (r_org r))),
                        (''requested_at'', PStr (intent_requested_now fr))],
      al_created_at = intent_created_now fr\<rparr>"

text \<open>The call row as a dictionary (\<^verbatim>\<open>dict(call_row)\<close>, line 96), keys in the order of
  the literal of lines 57 to 66.\<close>

definition call_row_dict :: "call_row \<Rightarrow> (string \<times> pyval) list" where
  "call_row_dict c =
     [(''id'', PStr (c_id c)),
      (''organization_id'', PStr (c_organization_id c)),
      (''system_id'', PStr (c_system_id c)),
      (''status'', PStr (c_status c)),
      (''started_at'', opt_str (c_started_at c)),
      (''ended_at'', opt_str (c_ended_at c)),
      (''created_by'', PStr (c_created_by c)),
      (''call_sid'', opt_str (c_call_sid c))]"

text \<open>The final record of line 97; its \<^verbatim>\<open>after\<close> is
  \<^verbatim>\<open>{ **canonical, 'config': mods, 'call_sid': call_sid }\<close>.\<close>

definition create_entry :: "fresh \<Rightarrow> resolved \<Rightarrow> call_row \<Rightarrow> pyval \<Rightarrow> audit_log" where
  "create_entry fr r row mods =
     \<lparr>al_id = audit_uuid fr, al_organization_id = org_id (r_org r),
      al_user_id = r_actor r, al_system_id = r_sys_cpid r,
      al_resource_type = ''calls'', al_resource_id = call_uuid fr,
      al_action = ''create'', al_before = PNone,
      al_after = PDict (dict_set (dict_set (call_row_dict row) ''config'' mods)
                                 ''call_sid'' (PStr (provider_call_sid fr))),
      al_created_at = audit_now fr\<rparr>"

text \<open>\<^verbatim>\<open>if mods.get(k)\<close> on a dictionary \<^verbatim>\<open>mods\<close>: a missing key gives \<^verbatim>\<open>None\<close>.\<close>

definition requested :: "(string \<times> pyval) list \<Rightarrow> string \<Rightarrow> bool" where
  "requested ms k = (case map_of ms k of None \<Rightarrow> False | Some v \<Rightarrow> truthy v)"

text \<open>Line 80: \<^verbatim>\<open>input.get('modulations', {})\<close>.\<close>

definition input_mods :: "(string \<times> pyval) list \<Rightarrow> pyval" where
  "input_mods input = (case map_of input ''modulations'' of None \<Rightarrow> PDict [] | Some v \<Rightarrow> v)"

text \<open>
  Lines 55 to 100. The call row is appended in status \<^verbatim>\<open>pending\<close> and then changed in
  place, so the table holds the changed row from line 76 on; an exception raised by
  \<^verbatim>\<open>mods.get\<close> (line 81, when \<^verbatim>\<open>modulations\<close> is not a dictionary) leaves it there, and
  an exception raised by \<^verbatim>\<open>json.dumps\<close> in \<^verbatim>\<open>write_audit\<close> leaves every row and entry
  appended so far. The other prints of these lines (68, 77 and 88) show a literal
  string and a row or an identifier: the rows are one dictionary of strings and
  \<^verbatim>\<open>None\<close>, whose conversion raises nothing.
\<close>

definition start_effects ::
  "interpreter \<Rightarrow> fresh \<Rightarrow> (string \<times> pyval) list \<Rightarrow> resolved \<Rightarrow> db \<Rightarrow>
     (pyexn + result) \<times> db" where
  "start_effects env fr input r d =
     (let call_row = pending_call_row fr r;
          pos = length (calls d);
          d1 = d\<lparr>calls := calls d @ [call_row]\<rparr>;
          call_row = accept_call fr call_row;
          d2 = d1\<lparr>calls := (calls d1)[pos := call_row]\<rparr>;
          mods = input_mods input
      in case mods of
           PDict ms \<Rightarrow>
             (let (errs, d3) =
                    (if requested ms ''transcribe''
                     then (case (if truthy_str (r_sys_ai r) then r_sys_ai r else None) of
                             None \<Rightarrow>
                               ([(''AI_SYSTEM_MISSING'', ''AI system not registered'')], d2)
                           | Some ai \<Rightarrow>
                               ([], d2\<lparr>ai_runs := ai_runs d2 @ [new_ai_run fr ai]\<rparr>))
                     else ([], d2));
                  (raised, d4) = (if requested ms ''record''
                                  then write_audit env (intent_entry fr r) d3
                                  else (None, d3))
              in case raised of
                   Some e \<Rightarrow> (Inl e, d4)
                 | None \<Rightarrow>
                    (case write_audit env (create_entry fr r call_row mods) d4 of
                       (Some e, d5) \<Rightarrow> (Inl e, d5)
                     | (None, d5) \<Rightarrow>
                         (Inr \<lparr>success = True, call_id = Some (call_uuid fr),
                               errors = errs\<rparr>, d5)))
         | _ \<Rightarrow> (Inl (AttributeError ''get''), d2))"

text \<open>\<^verbatim>\<open>simulate_start_call(input, actor)\<close>, lines 25 to 100: the outcome (an exception or
  the returned dictionary) and the tables afterwards. Line 28 prints the input before
  any check is made (line 27 prints a literal string).\<close>

definition simulate_start_call ::
  "interpreter \<Rightarrow> fresh \<Rightarrow> (string \<times> pyval) list \<Rightarrow> string option \<Rightarrow> db \<Rightarrow>
     (pyexn + result) \<times> db" where
  "simulate_start_call env fr input actor d =
     (case print_exn env (PDict input) of
        Some e \<Rightarrow> (Inl e, d)
      | None \<Rightarrow>
         (case check_preconditions d input actor of
            Inl e \<Rightarrow> (Inl e, d)
          | Inr (Inl err) \<Rightarrow> (Inr \<lparr>success = False, call_id = None, errors = [err]\<rparr>, d)
          | Inr (Inr r) \<Rightarrow> start_effects env fr input r d))"

text \<open>The inputs that line 28 prints without raising.\<close>

definition printable :: "interpreter \<Rightarrow> (string \<times> pyval) list \<Rightarrow> bool" where
  "printable env input = (print_exn env (PDict input) = None)"

text \<open>The modulations that \<^verbatim>\<open>json.dumps\<close> at line 23 serialises without raising: the
  final audit entry holds them under \<^verbatim>\<open>after.config\<close>, two levels down, and whatever else
  an entry holds is a string or \<^verbatim>\<open>None\<close>.\<close>

definition serialisable :: "interpreter \<Rightarrow> pyval \<Rightarrow> bool" where
  "serialisable env mods = (render_exn env (Suc (Suc (json_room env))) mods = None)"

text \<open>
  A call of the function. The parameter \<^verbatim>\<open>actor\<close> has a default (line 25:
  \<^verbatim>\<open>actor='user-1'\<close>), so the actor argument of a call is either passed, as \<^verbatim>\<open>None\<close>
  or as a string, or left out, and then the function runs with \<^verbatim>\<open>'user-1'\<close>. The
  module's own run, \<^verbatim>\<open>simulate_start_call(example_input)\<close> at line 109, leaves it out.
\<close>

datatype actor_argument =
    Omitted
  | Passed "string option"

fun bound_actor :: "actor_argument \<Rightarrow> string option" where
  "bound_actor Omitted = Some ''user-1''"
| "bound_actor (Passed a) = a"

definition call_simulate_start_call ::
  "interpreter \<Rightarrow> fresh \<Rightarrow> (string \<times> pyval) list \<Rightarrow> actor_argument \<Rightarrow> db \<Rightarrow>
     (pyexn + result) \<times> db" where
  "call_simulate_start_call env fr input arg d =
     simulate_start_call env fr input (bound_actor arg) d"

text \<open>The tables as the module initialises them (lines 9 to 19), and the input of the
  module's own example run (lines 104 to 108).\<close>

definition initial_db :: db where
  "initial_db =
     \<lparr>organizations =
        [''org-1'' \<mapsto> \<lparr>org_id = ''org-1'', org_name = ''ACME'', org_plan = ''paid'',
                       org_tool_id = Some ''tool-1'', org_created_by = ''user-1''\<rparr>],
      org_members = [\<lparr>m_id = ''m-1'', m_organization_id = ''org-1'',
                      m_user_id = ''user-1'', m_role = ''admin''\<rparr>],
      systems = [\<lparr>sys_id = ''sys-cpid'', sys_key = ''system-cpid''\<rparr>,
                 \<lparr>sys_id = ''sys-ai'', sys_key = ''system-ai''\<rparr>],
      calls = [], ai_runs = [], audit_logs = []\<rparr>"

definition example_input :: "(string \<times> pyval) list" where
  "example_input =
     [(''organization_id'', PStr ''org-1''),
      (''phone_number'', PStr ''+15555551234''),
      (''modulations'', PDict [(''record'', PBool True), (''transcribe'', PBool True)])]"

text \<open>An interpreter with the limit on integer digits at its default, and room for
  some nine hundred nested conversions.\<close>

definition sample_interpreter :: interpreter where
  "sample_interpreter = \<lparr>int_max_str_digits = 4300, repr_room = 900, json_room = 890\<rparr>"

text \<open>One possible draw of identifiers and timestamps.\<close>

definition sample_fresh :: fresh where
  "sample_fresh =
     \<lparr>call_uuid = ''0b0e3c5e-5a57-4a10-9d4e-5f0c8a3b7f01'',
      sid_hex = ''7c9e6679f4a34d1c8f2b3e5d6a7b8c9d'',
      started_now = ''2024-01-01T00:00:00.000001Z'',
      ai_uuid = ''1c1f4d6f-6b68-4b21-8e5f-6a1d9b4c8a12'',
      intent_uuid = ''2d2a5e7a-7c79-4c32-9f6a-7b2e0c5d9b23'',
      intent_requested_now = ''2024-01-01T00:00:00.000002Z'',
      intent_created_now = ''2024-01-01T00:00:00.000003Z'',
      audit_uuid = ''3e3b6f8b-8d8a-4d43-8a7b-8c3f1d6e0c34'',
      audit_now = ''2024-01-01T00:00:00.000004Z''\<rparr>"

section \<open>The stated preconditions\<close>

text \<open>
  The specification names four preconditions, checked in order: the actor is non-empty,
  \<^verbatim>\<open>organizations[input.organization_id]\<close> exists, an OrgMember row links the actor to
  that organization, and a System with key \<^verbatim>\<open>system-cpid\<close> is registered. The
  definitions below follow these words, not the code.
\<close>

definition linked :: "org_member list \<Rightarrow> string \<Rightarrow> string \<Rightarrow> bool" where
  "linked ms user org = (\<exists>m\<in>set ms. m_user_id m = user \<and> m_organization_id m = org)"

definition registered :: "system_row list \<Rightarrow> string \<Rightarrow> bool" where
  "registered ss k = (\<exists>s\<in>set ss. sys_key s = k)"

text \<open>A stricter reading of "registered": the last System row with key \<open>k\<close> exists and
  its id is not the empty string.\<close>

definition resolvable :: "system_row list \<Rightarrow> string \<Rightarrow> bool" where
  "resolvable ss k =
     (case find (\<lambda>s. sys_key s = k) (rev ss) of
        None \<Rightarrow> False
      | Some s \<Rightarrow> sys_id s \<noteq> [])"

text \<open>The code of the first stated precondition that fails, or \<open>None\<close> when all four
  hold; \<open>reg\<close> is the reading of "registered" taken for the fourth.\<close>

definition first_failure ::
  "(system_row list \<Rightarrow> string \<Rightarrow> bool) \<Rightarrow> db \<Rightarrow> (string \<times> pyval) list \<Rightarrow>
     string option \<Rightarrow> string option" where
  "first_failure reg d input actor =
     (case actor of
        None \<Rightarrow> Some ''AUTH_REQUIRED''
      | Some a \<Rightarrow>
         if a = [] then Some ''AUTH_REQUIRED''
         else case (case map_of input ''organization_id'' of
                      Some (PStr k) \<Rightarrow> organizations d k
                    | _ \<Rightarrow> None) of
                None \<Rightarrow> Some ''CALL_START_ORG_NOT_FOUND''
              | Some org \<Rightarrow>
                  if \<not> linked (org_members d) a (org_id org) then Some ''AUTH_ORG_MISMATCH''
                  else if \<not> reg (systems d) ''system-cpid'' then Some ''CALL_START_SYS_MISSING''
                  else None)"


text \<open>Two variants of the initial tables, in which the row of \<^verbatim>\<open>system-cpid\<close>, or that of
  \<^verbatim>\<open>system-ai\<close>, carries the empty string as its id.\<close>

definition blank_cpid_db :: db where
  "blank_cpid_db =
     initial_db\<lparr>systems := [\<lparr>sys_id = [], sys_key = ''system-cpid''\<rparr>,
                            \<lparr>sys_id = ''sys-ai'', sys_key = ''system-ai''\<rparr>]\<rparr>"

definition blank_ai_db :: db where
  "blank_ai_db =
     initial_db\<lparr>systems := [\<lparr>sys_id = ''sys-cpid'', sys_key = ''system-cpid''\<rparr>,
                            \<lparr>sys_id = [], sys_key = ''system-ai''\<rparr>]\<rparr>"

text \<open>The initial tables with the organization row stored under the key \<^verbatim>\<open>org-1\<close>
  carrying another id.\<close>

definition renamed_org_db :: db where
  "renamed_org_db =
     initial_db\<lparr>organizations :=
        [''org-1'' \<mapsto> \<lparr>org_id = ''org-2'', org_name = ''ACME'', org_plan = ''paid'',
                       org_tool_id = Some ''tool-1'', org_created_by = ''user-1''\<rparr>]\<rparr>"

text \<open>The initial tables with one System row only, that of \<^verbatim>\<open>system-cpid\<close>, with the
  empty string as its id.\<close>

definition blank_cpid_only_db :: db where
  "blank_cpid_only_db = initial_db\<lparr>systems := [\<lparr>sys_id = [], sys_key = ''system-cpid''\<rparr>]\<rparr>"

text \<open>The initial tables without the row of \<^verbatim>\<open>system-ai\<close>.\<close>

definition no_ai_db :: db where
  "no_ai_db = initial_db\<lparr>systems := [\<lparr>sys_id = ''sys-cpid'', sys_key = ''system-cpid''\<rparr>]\<rparr>"

text \<open>What the checks resolve on the initial tables for actor \<^verbatim>\<open>user-1\<close> and
  organization \<^verbatim>\<open>org-1\<close>.\<close>

definition initial_resolved :: resolved where
  "initial_resolved =
     \<lparr>r_org = \<lparr>org_id = ''org-1'', org_name = ''ACME'', org_plan = ''paid'',
                org_tool_id = Some ''tool-1'', org_created_by = ''user-1''\<rparr>,
      r_actor = ''user-1'', r_sys_cpid = ''sys-cpid'', r_sys_ai = Some ''sys-ai''\<rparr>"

text \<open>The inputs of the specification's examples.\<close>

definition plain_input :: "(string \<times> pyval) list" where
  "plain_input = [(''organization_id'', PStr ''org-1''), (''modulations'', PDict [])]"

definition transcribe_input :: "(string \<times> pyval) list" where
  "transcribe_input =
     [(''organization_id'', PStr ''org-1''),
      (''modulations'', PDict [(''transcribe'', PBool True)])]"

definition record_input :: "(string \<times> pyval) list" where
  "record_input =
     [(''organization_id'', PStr ''org-1''),
      (''modulations'', PDict [(''record'', PBool True)])]"

section \<open>The permission-matrix builder\<close>

text \<open>
  \<^verbatim>\<open>tools/build_permission_matrix.py\<close> is a script. Lines 8 to 25 read its two inputs: the
  permission table \<^verbatim>\<open>tool\<close>, the value \<^verbatim>\<open>json.loads\<close> returns, and the schema text, which
  lines 12 to 25 turn into the dictionary \<^verbatim>\<open>tables\<close> from table name to the list of its
  column names. Lines 27 to 73, modelled here, build the output from these two values:
  \<^verbatim>\<open>tables\<close> is an association list from names to column lists, looked up with
  \<open>map_of\<close>, and \<^verbatim>\<open>tool\<close> is a \<open>pyval\<close>. What the model proves for every \<^verbatim>\<open>tables\<close>
  holds for the dictionary parsed from any schema text.
\<close>

type_synonym schema_tables = "(string \<times> string list) list"

text \<open>The values stored under a table of the matrix: a list of columns under each
  operation, and the dictionary of modules under \<^verbatim>\<open>allowed_modules\<close>.\<close>

datatype perm_value =
    Columns "string list"
  | Modules "(string \<times> string list) list"

type_synonym matrix = "(string \<times> (string \<times> perm_value) list) list"

record validation =
  tables_in_schema :: "string list"
  validation_errors :: "string list"

record emitted =
  out_matrix :: matrix
  out_validation :: validation

definition ops :: "string list" where
  "ops = [''GET'', ''POST'', ''PUT'', ''DELETE'']"

text \<open>The literal of lines 42 to 47 and of line 55.\<close>

definition allowed_modules :: perm_value where
  "allowed_modules =
     Modules [(''GET'', [''ui'', ''server_actions'', ''api_routes'']),
              (''POST'', [''server_actions'']),
              (''PUT'', [''server_actions'']),
              (''DELETE'', [''server_actions''])]"

text \<open>\<^verbatim>\<open>perms.get(op, [])\<close> (line 37): only a dictionary has \<^verbatim>\<open>get\<close>.\<close>

fun perms_get :: "pyval \<Rightarrow> string \<Rightarrow> pyexn + pyval" where
  "perms_get (PDict kvs) op = Inr (case map_of kvs op of None \<Rightarrow> PList [] | Some v \<Rightarrow> v)"
| "perms_get v op = Inl (AttributeError ''get'')"

text \<open>\<^verbatim>\<open>for c in cols\<close> (line 39): a list gives its elements, a string its characters, a
  dictionary its keys; nothing else can be iterated.\<close>

fun py_iter :: "pyval \<Rightarrow> pyexn + pyval list" where
  "py_iter (PList xs) = Inr xs"
| "py_iter (PStr s) = Inr (map (\<lambda>c. PStr [c]) s)"
| "py_iter (PDict kvs) = Inr (map (\<lambda>kv. PStr (fst kv)) kvs)"
| "py_iter v = Inl (TypeError ''object is not iterable'')"

text \<open>\<^verbatim>\<open>[c for c in cols if c in schema_cols]\<close> (line 39), where \<^verbatim>\<open>schema_cols\<close> is a set
  of strings: the test raises on an unhashable \<^verbatim>\<open>c\<close>, and holds only of a string that is
  one of the columns.\<close>

fun filter_columns :: "string list \<Rightarrow> pyval list \<Rightarrow> pyexn + string list" where
  "filter_columns schema_cols [] = Inr []"
| "filter_columns schema_cols (c # cs) =
     (if \<not> hashable c then Inl (TypeError ''unhashable type'')
      else case filter_columns schema_cols cs of
             Inl e \<Rightarrow> Inl e
           | Inr rest \<Rightarrow>
               (case c of
                  PStr s \<Rightarrow> if s \<in> set schema_cols then Inr (s # rest) else Inr rest
                | _ \<Rightarrow> Inr rest))"

text \<open>The loop of lines 36 to 40 over the operations, filling the entry of one table.\<close>

fun fill_ops ::
  "string list \<Rightarrow> pyval \<Rightarrow> string list \<Rightarrow> (string \<times> perm_value) list \<Rightarrow>
     pyexn + (string \<times> perm_value) list" where
  "fill_ops schema_cols perms [] entry = Inr entry"
| "fill_ops schema_cols perms (op # rest) entry =
     (case perms_get perms op of
        Inl e \<Rightarrow> Inl e
      | Inr cols \<Rightarrow>
         (case py_iter cols of
            Inl e \<Rightarrow> Inl e
          | Inr items \<Rightarrow>
             (case filter_columns schema_cols items of
                Inl e \<Rightarrow> Inl e
              | Inr filtered \<Rightarrow>
                  fill_ops schema_cols perms rest (dict_set entry op (Columns filtered)))))"

text \<open>The loop of lines 29 to 47 over \<^verbatim>\<open>tool.items()\<close>; a table the schema does not have
  is skipped.\<close>

fun build_updated :: "schema_tables \<Rightarrow> (string \<times> pyval) list \<Rightarrow> matrix \<Rightarrow> pyexn + matrix" where
  "build_updated tables [] updated = Inr updated"
| "build_updated tables ((tbl, perms) # rest) updated =
     (case map_of tables tbl of
        None \<Rightarrow> build_updated tables rest updated
      | Some schema_cols \<Rightarrow>
         (case fill_ops schema_cols perms ops [] of
            Inl e \<Rightarrow> Inl e
          | Inr entry \<Rightarrow>
              build_updated tables rest
                (dict_set updated tbl (dict_set entry ''allowed_modules'' allowed_modules))))"

text \<open>The entry of lines 52 to 55 for a required table that the permission table left
  out: every column under \<^verbatim>\<open>GET\<close>, none under the other operations.\<close>

definition default_entry :: "string list \<Rightarrow> (string \<times> perm_value) list" where
  "default_entry schema_cols =
     dict_set (dict_set (map (\<lambda>op. (op, Columns [])) ops) ''GET'' (Columns schema_cols))
              ''allowed_modules'' allowed_modules"

text \<open>The loop of lines 50 to 55.\<close>

fun add_required :: "schema_tables \<Rightarrow> string list \<Rightarrow> matrix \<Rightarrow> matrix" where
  "add_required tables [] updated = updated"
| "add_required tables (required # rest) updated =
     add_required tables rest
       (case (map_of updated required, map_of tables required) of
          (None, Some schema_cols) \<Rightarrow> dict_set updated required (default_entry schema_cols)
        | _ \<Rightarrow> updated)"

text \<open>The message of line 65.\<close>

definition unknown_column :: "string \<Rightarrow> string \<Rightarrow> string \<Rightarrow> string" where
  "unknown_column tbl op c = tbl @ ''.'' @ op @ '' includes unknown column '' @ c"

text \<open>The loops of lines 59 to 65. Iterating the value stored under a key gives the
  columns of a list and the keys of a dictionary; the key \<^verbatim>\<open>allowed_modules\<close> is skipped.\<close>

fun perm_items :: "perm_value \<Rightarrow> string list" where
  "perm_items (Columns cs) = cs"
| "perm_items (Modules ms) = map fst ms"

definition table_errors :: "schema_tables \<Rightarrow> string \<Rightarrow> (string \<times> perm_value) list \<Rightarrow> string list" where
  "table_errors tables tbl perms =
     concat (map (\<lambda>(op, cols).
                    if op = ''allowed_modules'' then []
                    else map (unknown_column tbl op)
                           (filter (\<lambda>c. c \<notin> set (case map_of tables tbl of
                                                    None \<Rightarrow> [] | Some cs \<Rightarrow> cs))
                                   (perm_items cols)))
                 perms)"

definition validate :: "schema_tables \<Rightarrow> matrix \<Rightarrow> string list" where
  "validate tables updated =
     concat (map (\<lambda>(tbl, perms). table_errors tables tbl perms) updated)"

text \<open>Lines 27 to 73: the emitted dictionary, or the exception that ends the script
  before anything is printed. \<^verbatim>\<open>tool.items()\<close> needs \<^verbatim>\<open>tool\<close> to be a dictionary.\<close>

definition build_permission_matrix :: "schema_tables \<Rightarrow> pyval \<Rightarrow> pyexn + emitted" where
  "build_permission_matrix tables tool =
     (case tool of
        PDict items \<Rightarrow>
          (case build_updated tables items [] of
             Inl e \<Rightarrow> Inl e
           | Inr updated0 \<Rightarrow>
               (let updated = add_required tables [''calls'', ''ai_runs''] updated0
                in Inr \<lparr>out_matrix = updated,
                        out_validation =
                          \<lparr>tables_in_schema = sort (map fst tables),
                            validation_errors = validate tables updated\<rparr>\<rparr>))
      | _ \<Rightarrow> Inl (AttributeError ''items''))"

text \<open>What the loops keep true of the matrix under construction: under every key but
  \<^verbatim>\<open>allowed_modules\<close> an entry holds a list of columns of the table's schema, and a
  finished entry has the four operations and \<^verbatim>\<open>allowed_modules\<close> as its keys, in this
  order.\<close>

definition entry_ok :: "string list \<Rightarrow> (string \<times> perm_value) list \<Rightarrow> bool" where
  "entry_ok schema_cols entry =
     (\<forall>(op, v) \<in> set entry.
        op = ''allowed_modules'' \<or> (\<exists>cs. v = Columns cs \<and> set cs \<subseteq> set schema_cols))"

definition matrix_ok :: "schema_tables \<Rightarrow> matrix \<Rightarrow> bool" where
  "matrix_ok tables updated =
     (\<forall>(tbl, entry) \<in> set updated.
        map fst entry = ops @ [''allowed_modules''] \<and>
        (\<exists>schema_cols. map_of tables tbl = Some schema_cols \<and> entry_ok schema_cols entry))"

text \<open>A small schema and a permission table for it: one stale column, one table the
  schema does not have, and no entry for \<^verbatim>\<open>ai_runs\<close>.\<close>

definition sample_tables :: schema_tables where
  "sample_tables =
     [(''calls'', [''id'', ''status'', ''call_sid'']),
      (''ai_runs'', [''id'', ''call_id''])]"

definition sample_tool :: pyval where
  "sample_tool =
     PDict [(''calls'', PDict [(''GET'', PList [PStr ''id'', PStr ''status'', PStr ''legacy'']),
                              (''PUT'', PList [PStr ''status''])]),
            (''recordings'', PDict [(''GET'', PList [PStr ''id''])])]"

section \<open>Properties of the call-start workflow\<close>

lemmas run_defs =
  simulate_start_call_def check_preconditions_def organizations_get_def system_map_def
  start_effects_def input_mods_def requested_def write_audit_def
  pending_call_row_def accept_call_def new_ai_run_def provider_call_sid_def
  intent_entry_def create_entry_def call_row_dict_def
  print_exn_def dumps_exn_def audit_log_dict_def

subsection \<open>What the conversions to text raise\<close>

text \<open>The conversion of a value with a positive number of conversions available, for
  use where that number is a numeral.\<close>

lemma render_exn_unfold:
  "k \<noteq> 0 \<Longrightarrow> render_exn env k (PDict kvs) =
      first_raised (map (\<lambda>kv. render_exn env (k - 1) (snd kv)) kvs)"
  "k \<noteq> 0 \<Longrightarrow> render_exn env k (PList xs) = first_raised (map (render_exn env (k - 1)) xs)"
  "k \<noteq> 0 \<Longrightarrow> render_exn env k (PInt i) =
      (if too_long env i
       then Some (ValueError ''Exceeds the limit for integer string conversion'')
       else None)"
  "k \<noteq> 0 \<Longrightarrow> render_exn env k PNone = None"
  "k \<noteq> 0 \<Longrightarrow> render_exn env k (PBool b) = None"
  "k \<noteq> 0 \<Longrightarrow> render_exn env k (PFloat x) = None"
  "k \<noteq> 0 \<Longrightarrow> render_exn env k (PStr s) = None"
  by (cases k; simp)+

lemma render_exn_opt_str: "render_exn env (Suc k) (opt_str x) = None"
  by (cases x) simp_all

text \<open>\<^verbatim>\<open>json.dumps\<close> raises nothing on an intent record, which holds strings and
  \<^verbatim>\<open>None\<close>; on the final record it raises what the conversion of the modulations
  raises, two levels down.\<close>

lemma intent_entry_dumps:
  "dumps_exn env (PDict (audit_log_dict (intent_entry fr r))) = None"
  by (simp add: dumps_exn_def audit_log_dict_def intent_entry_def render_exn_opt_str)

lemma create_entry_dumps:
  "dumps_exn env (PDict (audit_log_dict (create_entry fr r row mods))) =
     render_exn env (Suc (Suc (json_room env))) mods"
  by (cases "render_exn env (Suc (Suc (json_room env))) mods")
     (simp_all add: dumps_exn_def audit_log_dict_def create_entry_def call_row_dict_def
        render_exn_opt_str)

text \<open>An integer of more than \<open>m\<close> digits, \<open>10 ^ m\<close> for one, is too long for an
  interpreter whose limit is \<open>m\<close>; the default is \<open>m = 4300\<close>.\<close>

lemma power_of_ten_too_long:
  assumes "int_max_str_digits env = m" and "640 \<le> m"
  shows "too_long env (10 ^ m)"
  using assms by (auto simp add: too_long_def max_def)

subsection \<open>What the effects phase does\<close>

text \<open>When \<^verbatim>\<open>modulations\<close> is a dictionary (or absent), lines 55 to 100 append one call
  row, at most one AI run and one or two audit entries, and return success unless
  \<^verbatim>\<open>json.dumps\<close> raises on the final audit entry, which by then is in the table.\<close>

lemma start_effects_dict:
  assumes "input_mods input = PDict ms"
  shows "start_effects env fr input r d =
    ((case render_exn env (Suc (Suc (json_room env))) (PDict ms) of
        None \<Rightarrow>
          Inr \<lparr>success = True, call_id = Some (call_uuid fr),
               errors = (if requested ms ''transcribe'' \<and> \<not> truthy_str (r_sys_ai r)
                         then [(''AI_SYSTEM_MISSING'', ''AI system not registered'')]
                         else [])\<rparr>
      | Some e \<Rightarrow> Inl e),
     d\<lparr>calls := calls d @ [accept_call fr (pending_call_row fr r)],
       ai_runs := ai_runs d @
          (if requested ms ''transcribe'' \<and> truthy_str (r_sys_ai r)
           then [new_ai_run fr (the (r_sys_ai r))] else []),
       audit_logs := audit_logs d @
          (if requested ms ''record'' then [intent_entry fr r] else []) @
          [create_entry fr r (accept_call fr (pending_call_row fr r)) (PDict ms)]\<rparr>)"
  using assms
  by (cases "r_sys_ai r"; cases "render_exn env (Suc (Suc (json_room env))) (PDict ms)")
     (simp_all add: start_effects_def write_audit_def Let_def
        intent_entry_dumps create_entry_dumps)

lemma start_effects_serialisable:
  assumes "input_mods input = PDict ms" and "serialisable env (PDict ms)"
  shows "start_effects env fr input r d =
    (Inr \<lparr>success = True, call_id = Some (call_uuid fr),
          errors = (if requested ms ''transcribe'' \<and> \<not> truthy_str (r_sys_ai r)
                    then [(''AI_SYSTEM_MISSING'', ''AI system not registered'')] else [])\<rparr>,
     d\<lparr>calls := calls d @ [accept_call fr (pending_call_row fr r)],
       ai_runs := ai_runs d @
          (if requested ms ''transcribe'' \<and> truthy_str (r_sys_ai r)
           then [new_ai_run fr (the (r_sys_ai r))] else []),
       audit_logs := audit_logs d @
          (if requested ms ''record'' then [intent_entry fr r] else []) @
          [create_entry fr r (accept_call fr (pending_call_row fr r)) (PDict ms)]\<rparr>)"
  using assms(2) unfolding start_effects_dict [OF assms(1)] serialisable_def
  by simp

text \<open>Otherwise \<^verbatim>\<open>mods.get\<close> raises, after the call row was inserted and accepted.\<close>

lemma start_effects_not_dict:
  assumes "\<forall>ms. input_mods input \<noteq> PDict ms"
  shows "start_effects env fr input r d =
    (Inl (AttributeError ''get''),
     d\<lparr>calls := calls d @ [accept_call fr (pending_call_row fr r)]\<rparr>)"
  using assms
  by (cases "input_mods input") (simp_all add: start_effects_def Let_def)

lemma start_effects_returned:
  assumes "start_effects env fr input r d = (Inr res, d')"
  shows "success res \<and> (\<exists>ms. input_mods input = PDict ms \<and> serialisable env (PDict ms))"
proof (cases "\<exists>ms. input_mods input = PDict ms")
  case True
  then obtain ms where ms: "input_mods input = PDict ms" by blast
  from start_effects_dict [OF this, of env fr r d] assms
  have "success res \<and> serialisable env (PDict ms)"
    by (auto simp add: serialisable_def split: option.splits)
  with ms show ?thesis by blast
next
  case False
  then have "\<forall>ms. input_mods input \<noteq> PDict ms" by blast
  from start_effects_not_dict [OF this, of env fr r d] assms show ?thesis
    by simp
qed

subsection \<open>What the checks decide\<close>

text \<open>The dictionary comprehension keeps, for each key, the id of the last row with it.\<close>

lemma system_map_foldl:
  "foldl (\<lambda>m s. m(sys_key s \<mapsto> sys_id s)) m0 ss =
     m0 ++ map_of (rev (map (\<lambda>s. (sys_key s, sys_id s)) ss))"
  by (induction ss arbitrary: m0) (simp_all add: map_add_upd_left)

lemma map_of_find:
  "map_of (map (\<lambda>s. (sys_key s, sys_id s)) ss) k =
     map_option sys_id (find (\<lambda>s. sys_key s = k) ss)"
  by (induction ss) simp_all

lemma system_map_find:
  "system_map ss k = map_option sys_id (find (\<lambda>s. sys_key s = k) (rev ss))"
  by (simp add: system_map_def system_map_foldl map_of_find rev_map)

lemma system_map_resolvable: "truthy_str (system_map ss k) = resolvable ss k"
  by (simp add: system_map_find resolvable_def split: option.splits)

lemma system_map_None: "(system_map ss k = None) = (\<not> registered ss k)"
  by (auto simp add: system_map_find registered_def find_None_iff)

lemma find_linked:
  "(find (\<lambda>m. m_organization_id m = oid \<and> m_user_id m = a) ms = None) = (\<not> linked ms a oid)"
  by (auto simp add: linked_def find_None_iff)

lemma case_find_member:
  "(case find (\<lambda>m. m_organization_id m = oid \<and> m_user_id m = a) ms of
      None \<Rightarrow> x | Some m \<Rightarrow> y) = (if linked ms a oid then y else x)"
proof (cases "find (\<lambda>m. m_organization_id m = oid \<and> m_user_id m = a) ms")
  case None
  then have "\<not> linked ms a oid" by (simp add: find_linked)
  with None show ?thesis by simp
next
  case (Some m)
  then have "linked ms a oid" using find_linked [of oid a ms] by simp
  with Some show ?thesis by simp
qed

lemma case_truthy_str:
  "(case (if truthy_str v then v else None) of None \<Rightarrow> x | Some s \<Rightarrow> f s) =
     (if truthy_str v then f (the v) else x)"
  by (cases v) simp_all

text \<open>The checks of lines 30 to 53, with the list searches replaced by what they decide.\<close>

lemma check_preconditions_eq:
  "check_preconditions d input actor =
     (if \<not> truthy_str actor then Inr (Inl (''AUTH_REQUIRED'', ''Unauthenticated''))
      else case map_of input ''organization_id'' of
        None \<Rightarrow> Inl (KeyError ''organization_id'')
      | Some k \<Rightarrow>
          if \<not> hashable k then Inl (TypeError ''unhashable type'')
          else case (case k of PStr s \<Rightarrow> organizations d s | _ \<Rightarrow> None) of
            None \<Rightarrow> Inr (Inl (''CALL_START_ORG_NOT_FOUND'', ''Organization not found''))
          | Some org \<Rightarrow>
              if \<not> linked (org_members d) (the actor) (org_id org)
              then Inr (Inl (''AUTH_ORG_MISMATCH'', ''Actor not authorized for organization''))
              else if \<not> resolvable (systems d) ''system-cpid''
              then Inr (Inl (''CALL_START_SYS_MISSING'', ''Control system not registered''))
              else Inr (Inr \<lparr>r_org = org, r_actor = the actor,
                            r_sys_cpid = the (system_map (systems d) ''system-cpid''),
                            r_sys_ai = system_map (systems d) ''system-ai''\<rparr>))"
  unfolding check_preconditions_def organizations_get_def Let_def
    case_truthy_str case_find_member system_map_resolvable
  by (cases "map_of input ''organization_id''"; simp)
     (rename_tac k, case_tac k; simp split: option.splits)

lemma check_passed:
  assumes "check_preconditions d input actor = Inr (Inr r)"
  shows "truthy_str actor"
    and "\<exists>k. map_of input ''organization_id'' = Some (PStr k) \<and>
             organizations d k = Some (r_org r)"
    and "r_actor r = the actor"
    and "linked (org_members d) (the actor) (org_id (r_org r))"
    and "resolvable (systems d) ''system-cpid''"
    and "Some (r_sys_cpid r) = system_map (systems d) ''system-cpid''"
    and "r_sys_ai r = system_map (systems d) ''system-ai''"
  using assms
  unfolding check_preconditions_eq
  by (auto split: if_splits option.splits pyval.splits
           simp add: system_map_resolvable [symmetric]
           elim!: truthy_str.elims)

lemma check_failed:
  assumes "check_preconditions d input actor = Inr (Inl err)"
  shows "\<exists>msg. err = (the (first_failure resolvable d input actor), msg)"
    and "first_failure resolvable d input actor \<noteq> None"
  using assms
  unfolding check_preconditions_eq first_failure_def
  by (cases actor; auto split: if_splits option.splits pyval.splits)+

lemma check_passed_first_failure:
  assumes "check_preconditions d input actor = Inr (Inr r)"
  shows "first_failure resolvable d input actor = None"
  using assms
  unfolding check_preconditions_eq first_failure_def
  by (cases actor; auto split: if_splits option.splits pyval.splits)

subsection \<open>The three ways a run ends\<close>

text \<open>A run whose input line 28 cannot print raises there, before any check and with
  the tables untouched; any other run goes on to the checks.\<close>

lemma simulate_unprintable:
  assumes "print_exn env (PDict input) = Some e"
  shows "simulate_start_call env fr input actor d = (Inl e, d)"
  using assms by (simp add: simulate_start_call_def)

lemma simulate_printable:
  assumes "printable env input"
  shows "simulate_start_call env fr input actor d =
     (case check_preconditions d input actor of
        Inl e \<Rightarrow> (Inl e, d)
      | Inr (Inl err) \<Rightarrow> (Inr \<lparr>success = False, call_id = None, errors = [err]\<rparr>, d)
      | Inr (Inr r) \<Rightarrow> start_effects env fr input r d)"
  using assms by (simp add: simulate_start_call_def printable_def)

lemma simulate_returned:
  assumes "simulate_start_call env fr input actor d = (Inr res, d')"
  shows "printable env input"
  using assms
  by (cases "print_exn env (PDict input)") (simp_all add: simulate_start_call_def printable_def)

lemma simulate_failure:
  assumes "simulate_start_call env fr input actor d = (Inr res, d')" and "\<not> success res"
  shows "\<exists>err. check_preconditions d input actor = Inr (Inl err) \<and>
           res = \<lparr>success = False, call_id = None, errors = [err]\<rparr> \<and> d' = d"
  using assms unfolding simulate_printable [OF simulate_returned [OF assms(1)]]
  by (auto split: sum.splits dest: start_effects_returned)

lemma simulate_success:
  assumes "simulate_start_call env fr input actor d = (Inr res, d')" and "success res"
  shows "\<exists>r ms. printable env input \<and> check_preconditions d input actor = Inr (Inr r) \<and>
           input_mods input = PDict ms \<and> serialisable env (PDict ms)"
proof -
  have pr: "printable env input"
    by (rule simulate_returned [OF assms(1)])
  from assms obtain r where r: "check_preconditions d input actor = Inr (Inr r)"
    and eff: "start_effects env fr input r d = (Inr res, d')"
    unfolding simulate_printable [OF pr] by (auto split: sum.splits)
  from start_effects_returned [OF eff] pr r show ?thesis by blast
qed

lemma simulate_passed:
  assumes "printable env input" and "check_preconditions d input actor = Inr (Inr r)"
  shows "simulate_start_call env fr input actor d = start_effects env fr input r d"
  using assms(2) unfolding simulate_printable [OF assms(1)] by simp

text \<open>The inputs of the specification's examples can be printed, and their modulations
  serialised, whatever the limits of the interpreter.\<close>

lemma example_inputs_printable:
  "printable env [(''organization_id'', PStr k), (''modulations'', PDict [])]"
  "printable env [(''organization_id'', PStr k),
                  (''modulations'', PDict [(''transcribe'', PBool True)])]"
  "printable env [(''organization_id'', PStr k),
                  (''modulations'', PDict [(''record'', PBool True)])]"
  by (simp_all add: printable_def print_exn_def)

lemma example_modulations_serialisable:
  "serialisable env (PDict [])"
  "serialisable env (PDict [(''transcribe'', PBool True)])"
  "serialisable env (PDict [(''record'', PBool True)])"
  by (simp_all add: serialisable_def)

subsection \<open>Hard failures\<close>

text \<open>
  Claim C5, as stated, fails. The module's own run (line 109) calls
  \<^verbatim>\<open>simulate_start_call(example_input)\<close>: the actor argument is missing, line 25 gives the
  parameter its default \<^verbatim>\<open>'user-1'\<close>, and on the initial tables the call returns
  \<^verbatim>\<open>success = True\<close> and appends a Call row.
\<close>

theorem missing_actor_counterexample:
  "fst (call_simulate_start_call sample_interpreter sample_fresh example_input Omitted
          initial_db) =
     Inr \<lparr>success = True, call_id = Some ''0b0e3c5e-5a57-4a10-9d4e-5f0c8a3b7f01'', errors = []\<rparr>
   \<and> map c_status (calls (snd (call_simulate_start_call sample_interpreter sample_fresh
                                   example_input Omitted initial_db))) = [''in-progress'']
   \<and> calls initial_db = []"
  by (simp add: call_simulate_start_call_def run_defs initial_db_def sample_fresh_def
        example_input_def sample_interpreter_def render_exn_unfold)

text \<open>A second way for it to fail: line 28 prints the input before line 31 tests the
  actor, so a call whose input cannot be printed raises and returns nothing, whatever
  the actor. An input holding an integer of more digits than the interpreter converts
  is one.\<close>

lemma unprintable_input_raises:
  assumes "print_exn env (PDict input) = Some e"
  shows "call_simulate_start_call env fr input arg d = (Inl e, d)"
  using assms by (simp add: call_simulate_start_call_def simulate_unprintable)

lemma huge_integer_raises:
  assumes "too_long env n"
  shows "call_simulate_start_call env fr [(''organization_id'', PInt n)] (Passed (Some [])) d =
           (Inl (ValueError ''Exceeds the limit for integer string conversion''), d)"
  using assms by (simp add: unprintable_input_raises print_exn_def)

text \<open>
  Claim C5, amended. Whatever the tables, and for every input that line 28 can print, a
  call whose actor argument is passed as \<^verbatim>\<open>None\<close> or as the empty string returns
  \<^verbatim>\<open>success = False\<close> with the single error \<^verbatim>\<open>AUTH_REQUIRED\<close>, and the tables,
  \<^verbatim>\<open>calls\<close> among them, are left as they were.
\<close>

theorem empty_actor_auth_required:
  assumes "arg = Passed None \<or> arg = Passed (Some [])" and "printable env input"
  shows "call_simulate_start_call env fr input arg d =
           (Inr \<lparr>success = False, call_id = None,
                 errors = [(''AUTH_REQUIRED'', ''Unauthenticated'')]\<rparr>, d)"
  using assms(1) unfolding call_simulate_start_call_def simulate_printable [OF assms(2)]
  by (auto simp add: check_preconditions_def)

theorem empty_actor_auth_required_witness:
  "printable sample_interpreter example_input
   \<and> call_simulate_start_call sample_interpreter sample_fresh example_input (Passed (Some []))
       initial_db =
     (Inr \<lparr>success = False, call_id = None,
           errors = [(''AUTH_REQUIRED'', ''Unauthenticated'')]\<rparr>, initial_db)
   \<and> calls initial_db = []"
proof -
  have pr: "printable sample_interpreter example_input"
    by (simp add: printable_def print_exn_def sample_interpreter_def example_input_def
          render_exn_unfold)
  from empty_actor_auth_required [of "Passed (Some [])" sample_interpreter example_input
         sample_fresh initial_db] pr
  show ?thesis by (simp add: initial_db_def)
qed

text \<open>
  Claim C10. Whenever \<^verbatim>\<open>simulate_start_call\<close> returns \<^verbatim>\<open>success = False\<close>, the tables
  \<^verbatim>\<open>calls\<close>, \<^verbatim>\<open>ai_runs\<close> and \<^verbatim>\<open>audit_logs\<close> are unchanged; indeed the whole state is.
\<close>

theorem hard_failure_atomic:
  assumes "simulate_start_call env fr input actor d = (Inr res, d')" and "\<not> success res"
  shows "calls d' = calls d \<and> ai_runs d' = ai_runs d \<and> audit_logs d' = audit_logs d \<and> d' = d"
  using simulate_failure [OF assms] by auto

theorem hard_failure_atomic_witness:
  "simulate_start_call sample_interpreter sample_fresh [(''organization_id'', PStr ''org-2'')]
       (Some ''user-1'') initial_db =
     (Inr \<lparr>success = False, call_id = None,
           errors = [(''CALL_START_ORG_NOT_FOUND'', ''Organization not found'')]\<rparr>, initial_db)
   \<and> calls initial_db = [] \<and> ai_runs initial_db = [] \<and> audit_logs initial_db = []"
proof -
  have run: "simulate_start_call sample_interpreter sample_fresh
       [(''organization_id'', PStr ''org-2'')] (Some ''user-1'') initial_db =
     (Inr \<lparr>success = False, call_id = None,
           errors = [(''CALL_START_ORG_NOT_FOUND'', ''Organization not found'')]\<rparr>, initial_db)"
    by (simp add: run_defs initial_db_def sample_interpreter_def render_exn_unfold)
  from hard_failure_atomic [OF run] run show ?thesis
    by (simp add: initial_db_def)
qed

text \<open>
  Claim C4, as stated, fails. In \<open>blank_cpid_db\<close> a System row with key
  \<^verbatim>\<open>system-cpid\<close> is registered, the organization exists and \<^verbatim>\<open>user-1\<close> is its member, so
  none of the four stated preconditions fails; yet the run returns \<^verbatim>\<open>success = False\<close>
  with \<^verbatim>\<open>CALL_START_SYS_MISSING\<close>, because line 51 tests the truth value of the resolved
  id, and the id of that row is the empty string.
\<close>

theorem first_failure_counterexample:
  "simulate_start_call sample_interpreter sample_fresh plain_input (Some ''user-1'')
       blank_cpid_db =
     (Inr \<lparr>success = False, call_id = None,
           errors = [(''CALL_START_SYS_MISSING'', ''Control system not registered'')]\<rparr>,
      blank_cpid_db)
   \<and> first_failure registered blank_cpid_db plain_input (Some ''user-1'') = None"
  by (simp add: run_defs blank_cpid_db_def initial_db_def sample_fresh_def plain_input_def
        first_failure_def linked_def registered_def sample_interpreter_def render_exn_unfold)

text \<open>
  Claim C4, amended. With the fourth precondition read as "the last System row with key
  \<^verbatim>\<open>system-cpid\<close> has a non-empty id", the checks are made in the stated order and stop
  at the first failure: a run that returns \<^verbatim>\<open>success = False\<close> returns exactly one
  \<open>(code, message)\<close> pair, whose code is that of the first precondition that fails, and a
  run that returns \<^verbatim>\<open>success = True\<close> found none failing.
\<close>

theorem first_failure_reported:
  assumes "simulate_start_call env fr input actor d = (Inr res, d')"
  shows "(\<not> success res \<longrightarrow>
            (\<exists>c msg. errors res = [(c, msg)] \<and>
                     first_failure resolvable d input actor = Some c))
       \<and> (success res \<longrightarrow> first_failure resolvable d input actor = None)"
proof (cases "success res")
  case False
  from simulate_failure [OF assms False] obtain err
    where chk: "check_preconditions d input actor = Inr (Inl err)"
      and res: "res = \<lparr>success = False, call_id = None, errors = [err]\<rparr>"
    by blast
  from check_failed [OF chk] obtain c msg
    where "err = (c, msg)" and "first_failure resolvable d input actor = Some c"
    by auto
  with res False show ?thesis by simp
next
  case True
  from simulate_success [OF assms True] obtain r
    where "check_preconditions d input actor = Inr (Inr r)" by blast
  from check_passed_first_failure [OF this] True show ?thesis by simp
qed

theorem first_failure_reported_witness:
  "simulate_start_call sample_interpreter sample_fresh plain_input (Some ''user-2'')
       initial_db =
     (Inr \<lparr>success = False, call_id = None,
           errors = [(''AUTH_ORG_MISMATCH'', ''Actor not authorized for organization'')]\<rparr>,
      initial_db)
   \<and> first_failure resolvable initial_db plain_input (Some ''user-2'')
       = Some ''AUTH_ORG_MISMATCH''"
proof -
  have run: "simulate_start_call sample_interpreter sample_fresh plain_input (Some ''user-2'')
       initial_db =
     (Inr \<lparr>success = False, call_id = None,
           errors = [(''AUTH_ORG_MISMATCH'', ''Actor not authorized for organization'')]\<rparr>,
      initial_db)"
    by (simp add: run_defs initial_db_def sample_fresh_def plain_input_def
          sample_interpreter_def render_exn_unfold)
  from first_failure_reported [OF run] run show ?thesis by simp
qed

subsection \<open>Successful runs\<close>

lemma check_passes:
  assumes "truthy_str actor"
    and "map_of input ''organization_id'' = Some (PStr k)"
    and "organizations d k = Some org"
    and "linked (org_members d) (the actor) (org_id org)"
    and "resolvable (systems d) ''system-cpid''"
  shows "check_preconditions d input actor =
           Inr (Inr \<lparr>r_org = org, r_actor = the actor,
                     r_sys_cpid = the (system_map (systems d) ''system-cpid''),
                     r_sys_ai = system_map (systems d) ''system-ai''\<rparr>)"
  using assms by (simp add: check_preconditions_eq)

text \<open>An input and actor for which none of the four preconditions fails, the fourth
  read as "the last System row with key \<^verbatim>\<open>system-cpid\<close> has a non-empty id", pass the
  checks of lines 30 to 53.\<close>

lemma no_failure_passes:
  assumes "first_failure resolvable d input actor = None"
  shows "\<exists>r. check_preconditions d input actor = Inr (Inr r)"
  using assms
  unfolding check_preconditions_eq first_failure_def
  by (cases actor; auto split: if_splits option.splits pyval.splits)

text \<open>
  Claim C1, as stated, fails. \<open>blank_cpid_db\<close> contains organization \<^verbatim>\<open>org-1\<close>, an
  OrgMember row linking \<^verbatim>\<open>user-1\<close> to \<^verbatim>\<open>org-1\<close> and a System row with key
  \<^verbatim>\<open>system-cpid\<close>, and the call with input
  \<^verbatim>\<open>{organization_id: 'org-1', modulations: {}}\<close> and actor \<^verbatim>\<open>user-1\<close> returns
  \<^verbatim>\<open>success = False\<close> and appends nothing: the id of the System row is the empty string,
  which line 51 takes for a missing system.
\<close>

theorem start_call_counterexample:
  "simulate_start_call sample_interpreter sample_fresh plain_input (Some ''user-1'')
       blank_cpid_db =
     (Inr \<lparr>success = False, call_id = None,
           errors = [(''CALL_START_SYS_MISSING'', ''Control system not registered'')]\<rparr>,
      blank_cpid_db)
   \<and> map sys_key (systems blank_cpid_db) = [''system-cpid'', ''system-ai'']
   \<and> map m_user_id (org_members blank_cpid_db) = [''user-1'']
   \<and> map m_organization_id (org_members blank_cpid_db) = [''org-1'']
   \<and> map_option org_id (organizations blank_cpid_db ''org-1'') = Some ''org-1''"
  by (simp add: run_defs blank_cpid_db_def initial_db_def sample_fresh_def plain_input_def
        sample_interpreter_def render_exn_unfold)

text \<open>The membership check of line 42 compares with \<^verbatim>\<open>org['id']\<close>, not with the key
  the organization was found under: where the two differ, a member of \<^verbatim>\<open>org-1\<close> is not
  let through. Hence "organization \<^verbatim>\<open>org-1\<close>" below is a row stored under the key
  \<^verbatim>\<open>org-1\<close> whose id is \<^verbatim>\<open>org-1\<close>.\<close>

lemma organization_id_decides:
  "simulate_start_call sample_interpreter sample_fresh plain_input (Some ''user-1'')
       renamed_org_db =
     (Inr \<lparr>success = False, call_id = None,
           errors = [(''AUTH_ORG_MISMATCH'', ''Actor not authorized for organization'')]\<rparr>,
      renamed_org_db)"
  by (simp add: run_defs renamed_org_db_def initial_db_def sample_fresh_def plain_input_def
        sample_interpreter_def render_exn_unfold)

text \<open>The call of claim C1 on any input that holds its two entries and that line 28 can
  print: whatever else the input holds is printed and not read again.\<close>

lemma start_call_on_printable_input:
  assumes "organizations d ''org-1'' = Some org" and "org_id org = ''org-1''"
    and "linked (org_members d) ''user-1'' ''org-1''"
    and "resolvable (systems d) ''system-cpid''"
    and "map_of input ''organization_id'' = Some (PStr ''org-1'')"
    and "map_of input ''modulations'' = Some (PDict [])"
    and "printable env input"
  shows "\<exists>res row entry.
           simulate_start_call env fr input (Some ''user-1'') d =
             (Inr res, d\<lparr>calls := calls d @ [row], audit_logs := audit_logs d @ [entry]\<rparr>)
         \<and> success res \<and> c_status row = ''in-progress'' \<and> c_call_sid row \<noteq> None
         \<and> al_action entry = ''create''"
proof -
  let ?r = "\<lparr>r_org = org, r_actor = ''user-1'',
              r_sys_cpid = the (system_map (systems d) ''system-cpid''),
              r_sys_ai = system_map (systems d) ''system-ai''\<rparr>"
  have chk: "check_preconditions d input (Some ''user-1'') = Inr (Inr ?r)"
    using check_passes [of "Some ''user-1''" input "''org-1''" d org] assms by simp
  have mods: "input_mods input = PDict []"
    using assms(6) by (simp add: input_mods_def)
  have "simulate_start_call env fr input (Some ''user-1'') d =
          (Inr \<lparr>success = True, call_id = Some (call_uuid fr), errors = []\<rparr>,
           d\<lparr>calls := calls d @ [accept_call fr (pending_call_row fr ?r)],
             audit_logs := audit_logs d @
               [create_entry fr ?r (accept_call fr (pending_call_row fr ?r)) (PDict [])]\<rparr>)"
    unfolding simulate_passed [OF assms(7) chk]
      start_effects_serialisable [OF mods example_modulations_serialisable(1)]
    by (simp add: requested_def)
  moreover have "c_status (accept_call fr (pending_call_row fr ?r)) = ''in-progress''"
    and "c_call_sid (accept_call fr (pending_call_row fr ?r)) \<noteq> None"
    by (simp_all add: accept_call_def)
  moreover have "al_action (create_entry fr ?r (accept_call fr (pending_call_row fr ?r)) (PDict []))
                   = ''create''"
    by (simp add: create_entry_def)
  ultimately show ?thesis by (intro exI conjI) (assumption | simp)+
qed

text \<open>
  Claim C1, amended. For every initial state whose \<^verbatim>\<open>organizations\<close> table maps
  \<^verbatim>\<open>org-1\<close> to a row with id \<^verbatim>\<open>org-1\<close>, that has an OrgMember row linking \<^verbatim>\<open>user-1\<close> to
  \<^verbatim>\<open>org-1\<close>, and whose last System row with key \<^verbatim>\<open>system-cpid\<close> has a non-empty id, the
  call with input \<^verbatim>\<open>{organization_id: 'org-1', modulations: {}}\<close> and actor \<^verbatim>\<open>user-1\<close>
  returns \<^verbatim>\<open>success = True\<close>, whatever the limits of the interpreter; the state
  afterwards is the initial one with exactly one row appended to \<^verbatim>\<open>calls\<close>, in status
  \<^verbatim>\<open>in-progress\<close> with a \<^verbatim>\<open>call_sid\<close> that is not \<^verbatim>\<open>None\<close>, and exactly one entry
  appended to \<^verbatim>\<open>audit_logs\<close>, with action \<^verbatim>\<open>create\<close>.
\<close>

theorem start_call_creates_call_and_audit:
  assumes "organizations d ''org-1'' = Some org" and "org_id org = ''org-1''"
    and "linked (org_members d) ''user-1'' ''org-1''"
    and "resolvable (systems d) ''system-cpid''"
  shows "\<exists>res row entry.
           simulate_start_call env fr
               [(''organization_id'', PStr ''org-1''), (''modulations'', PDict [])]
               (Some ''user-1'') d =
             (Inr res, d\<lparr>calls := calls d @ [row], audit_logs := audit_logs d @ [entry]\<rparr>)
         \<and> success res \<and> c_status row = ''in-progress'' \<and> c_call_sid row \<noteq> None
         \<and> al_action entry = ''create''"
  by (rule start_call_on_printable_input [OF assms _ _ example_inputs_printable(1)]) simp_all

theorem start_call_creates_call_and_audit_witness:
  "\<exists>res row entry.
     simulate_start_call sample_interpreter sample_fresh
         [(''organization_id'', PStr ''org-1''), (''modulations'', PDict [])]
         (Some ''user-1'') initial_db =
       (Inr res, initial_db\<lparr>calls := calls initial_db @ [row],
                            audit_logs := audit_logs initial_db @ [entry]\<rparr>)
     \<and> success res \<and> c_status row = ''in-progress'' \<and> c_call_sid row \<noteq> None
     \<and> al_action entry = ''create''"
proof -
  have h1: "organizations initial_db ''org-1'' = Some (r_org initial_resolved)"
    by (simp add: initial_db_def initial_resolved_def)
  have h2: "org_id (r_org initial_resolved) = ''org-1''"
    by (simp add: initial_resolved_def)
  have h3: "linked (org_members initial_db) ''user-1'' ''org-1''"
    by (simp add: initial_db_def linked_def)
  have h4: "resolvable (systems initial_db) ''system-cpid''"
    by (simp add: initial_db_def resolvable_def)
  show ?thesis
    by (rule start_call_creates_call_and_audit [OF h1 h2 h3 h4])
qed

subsection \<open>Transcription\<close>

text \<open>
  Claim C6, as stated, fails. \<open>blank_ai_db\<close> has organization \<^verbatim>\<open>org-1\<close> with member
  \<^verbatim>\<open>user-1\<close> and System rows with keys \<^verbatim>\<open>system-cpid\<close> and \<^verbatim>\<open>system-ai\<close>, and the call
  with \<^verbatim>\<open>modulations = {transcribe: True}\<close> appends no AiRun row: the id of the
  \<^verbatim>\<open>system-ai\<close> row is the empty string, which line 82 takes for a missing system, so
  the run reports \<^verbatim>\<open>AI_SYSTEM_MISSING\<close> instead.
\<close>

theorem transcribe_counterexample:
  "fst (simulate_start_call sample_interpreter sample_fresh transcribe_input (Some ''user-1'')
          blank_ai_db) =
     Inr \<lparr>success = True, call_id = Some ''0b0e3c5e-5a57-4a10-9d4e-5f0c8a3b7f01'',
          errors = [(''AI_SYSTEM_MISSING'', ''AI system not registered'')]\<rparr>
   \<and> ai_runs (snd (simulate_start_call sample_interpreter sample_fresh transcribe_input
                      (Some ''user-1'') blank_ai_db)) = []
   \<and> map sys_key (systems blank_ai_db) = [''system-cpid'', ''system-ai'']
   \<and> map m_user_id (org_members blank_ai_db) = [''user-1'']
   \<and> map m_organization_id (org_members blank_ai_db) = [''org-1'']
   \<and> map_option org_id (organizations blank_ai_db ''org-1'') = Some ''org-1''"
  by (simp add: run_defs blank_ai_db_def initial_db_def sample_fresh_def transcribe_input_def
        sample_interpreter_def render_exn_unfold)

text \<open>The call of claim C6 on any input that holds its two entries and that line 28 can
  print.\<close>

lemma transcribe_on_printable_input:
  assumes "organizations d ''org-1'' = Some org" and "org_id org = ''org-1''"
    and "linked (org_members d) ''user-1'' ''org-1''"
    and "resolvable (systems d) ''system-cpid''"
    and "resolvable (systems d) ''system-ai''"
    and "map_of input ''organization_id'' = Some (PStr ''org-1'')"
    and "map_of input ''modulations'' = Some (PDict [(''transcribe'', PBool True)])"
    and "printable env input"
  shows "\<exists>res d' row run.
           simulate_start_call env fr input (Some ''user-1'') d = (Inr res, d')
         \<and> calls d' = calls d @ [row]
         \<and> ai_runs d' = ai_runs d @ [run]
         \<and> ai_status run = ''queued'' \<and> ai_call_id run = c_id row"
proof -
  let ?r = "\<lparr>r_org = org, r_actor = ''user-1'',
              r_sys_cpid = the (system_map (systems d) ''system-cpid''),
              r_sys_ai = system_map (systems d) ''system-ai''\<rparr>"
  let ?ms = "[(''transcribe'', PBool True)]"
  have chk: "check_preconditions d input (Some ''user-1'') = Inr (Inr ?r)"
    using check_passes [of "Some ''user-1''" input "''org-1''" d org] assms by simp
  have mods: "input_mods input = PDict ?ms"
    using assms(7) by (simp add: input_mods_def)
  have ai: "truthy_str (r_sys_ai ?r)"
    using assms(5) by (simp add: system_map_resolvable)
  have req: "requested ?ms ''transcribe''"
    by (simp add: requested_def)
  let ?d' = "snd (simulate_start_call env fr input (Some ''user-1'') d)"
  let ?row = "accept_call fr (pending_call_row fr ?r)"
  let ?run = "new_ai_run fr (the (r_sys_ai ?r))"
  have run: "simulate_start_call env fr input (Some ''user-1'') d =
          (Inr \<lparr>success = True, call_id = Some (call_uuid fr), errors = []\<rparr>, ?d')"
    and "calls ?d' = calls d @ [?row]"
    and "ai_runs ?d' = ai_runs d @ [?run]"
    unfolding simulate_passed [OF assms(8) chk]
      start_effects_serialisable [OF mods example_modulations_serialisable(2)]
    using ai req by simp_all
  moreover have "ai_status ?run = ''queued''" and "ai_call_id ?run = c_id ?row"
    by (simp_all add: new_ai_run_def accept_call_def pending_call_row_def)
  ultimately show ?thesis by blast
qed

text \<open>
  Claim C6, amended. Given organization \<^verbatim>\<open>org-1\<close> (the table maps \<^verbatim>\<open>org-1\<close> to a row
  with that id) with member \<^verbatim>\<open>user-1\<close>, System rows for \<^verbatim>\<open>system-cpid\<close> and
  \<^verbatim>\<open>system-ai\<close> whose ids (those of the last row with each key) are non-empty, and the
  input \<^verbatim>\<open>{organization_id: 'org-1', modulations: {transcribe: True}}\<close>, the call
  appends exactly one AiRun row, with status \<^verbatim>\<open>queued\<close> and \<^verbatim>\<open>call_id\<close> equal to the id
  of the one Call row it appends, whatever the limits of the interpreter.
\<close>

theorem transcribe_creates_ai_run:
  assumes "organizations d ''org-1'' = Some org" and "org_id org = ''org-1''"
    and "linked (org_members d) ''user-1'' ''org-1''"
    and "resolvable (systems d) ''system-cpid''"
    and "resolvable (systems d) ''system-ai''"
  shows "\<exists>res d' row run.
           simulate_start_call env fr
               [(''organization_id'', PStr ''org-1''),
                (''modulations'', PDict [(''transcribe'', PBool True)])]
               (Some ''user-1'') d = (Inr res, d')
         \<and> calls d' = calls d @ [row]
         \<and> ai_runs d' = ai_runs d @ [run]
         \<and> ai_status run = ''queued'' \<and> ai_call_id run = c_id row"
  by (rule transcribe_on_printable_input [OF assms _ _ example_inputs_printable(2)]) simp_all

theorem transcribe_creates_ai_run_witness:
  "\<exists>res d' row run.
     simulate_start_call sample_interpreter sample_fresh
         [(''organization_id'', PStr ''org-1''),
          (''modulations'', PDict [(''transcribe'', PBool True)])]
         (Some ''user-1'') initial_db = (Inr res, d')
     \<and> calls d' = calls initial_db @ [row]
     \<and> ai_runs d' = ai_runs initial_db @ [run]
     \<and> ai_status run = ''queued'' \<and> ai_call_id run = c_id row"
proof -
  have h1: "organizations initial_db ''org-1'' = Some (r_org initial_resolved)"
    by (simp add: initial_db_def initial_resolved_def)
  have h2: "org_id (r_org initial_resolved) = ''org-1''"
    by (simp add: initial_resolved_def)
  have h3: "linked (org_members initial_db) ''user-1'' ''org-1''"
    by (simp add: initial_db_def linked_def)
  have h4: "resolvable (systems initial_db) ''system-cpid''"
    by (simp add: initial_db_def resolvable_def)
  have h5: "resolvable (systems initial_db) ''system-ai''"
    by (simp add: initial_db_def resolvable_def)
  show ?thesis
    by (rule transcribe_creates_ai_run [OF h1 h2 h3 h4 h5])
qed

text \<open>
  Claim C7, as stated, fails. In \<open>blank_cpid_only_db\<close> the only System row has key
  \<^verbatim>\<open>system-cpid\<close> and the empty string as its id, so no System with key \<^verbatim>\<open>system-ai\<close>
  is registered, and for the input
  \<^verbatim>\<open>{organization_id: 'org-1', modulations: {transcribe: True}}\<close> and actor \<^verbatim>\<open>user-1\<close>
  none of the four stated preconditions fails: the actor is non-empty, the organization
  exists, \<^verbatim>\<open>user-1\<close> is its member, and a System with key \<^verbatim>\<open>system-cpid\<close> is
  registered. Yet the run returns \<^verbatim>\<open>success = False\<close> with \<^verbatim>\<open>CALL_START_SYS_MISSING\<close>
  and no \<^verbatim>\<open>AI_SYSTEM_MISSING\<close>: line 51 takes the empty id for a missing system.
\<close>

theorem missing_ai_system_counterexample:
  "simulate_start_call sample_interpreter sample_fresh transcribe_input (Some ''user-1'')
       blank_cpid_only_db =
     (Inr \<lparr>success = False, call_id = None,
           errors = [(''CALL_START_SYS_MISSING'', ''Control system not registered'')]\<rparr>,
      blank_cpid_only_db)
   \<and> first_failure registered blank_cpid_only_db transcribe_input (Some ''user-1'') = None
   \<and> map sys_key (systems blank_cpid_only_db) = [''system-cpid'']
   \<and> registered (systems blank_cpid_only_db) ''system-ai'' = False"
  by (simp add: run_defs blank_cpid_only_db_def initial_db_def sample_fresh_def
        transcribe_input_def first_failure_def linked_def registered_def
        sample_interpreter_def render_exn_unfold)

text \<open>
  Claim C7, amended. For every input with \<^verbatim>\<open>modulations = {transcribe: True}\<close> that
  line 28 can print and for which none of the four preconditions fails, the fourth read
  as in claim C4 (the last System row with key \<^verbatim>\<open>system-cpid\<close> has a non-empty id): if
  no System row has key \<^verbatim>\<open>system-ai\<close> then the call returns \<^verbatim>\<open>success = True\<close>, the code
  \<^verbatim>\<open>AI_SYSTEM_MISSING\<close> is among its errors, and \<^verbatim>\<open>ai_runs\<close> is unchanged.
\<close>

theorem missing_ai_system_is_soft:
  assumes "first_failure resolvable d input actor = None"
    and "map_of input ''modulations'' = Some (PDict [(''transcribe'', PBool True)])"
    and "printable env input"
    and "\<not> registered (systems d) ''system-ai''"
  shows "\<exists>res d'. simulate_start_call env fr input actor d = (Inr res, d')
           \<and> success res
           \<and> ''AI_SYSTEM_MISSING'' \<in> fst ` set (errors res)
           \<and> ai_runs d' = ai_runs d"
proof -
  from no_failure_passes [OF assms(1)] obtain r
    where chk: "check_preconditions d input actor = Inr (Inr r)" by blast
  have mods: "input_mods input = PDict [(''transcribe'', PBool True)]"
    using assms(2) by (simp add: input_mods_def)
  have "r_sys_ai r = None"
    using check_passed(7) [OF chk] assms(4) by (simp add: system_map_None)
  then show ?thesis
    unfolding simulate_passed [OF assms(3) chk]
      start_effects_serialisable [OF mods example_modulations_serialisable(2)]
    by (simp add: requested_def)
qed

theorem missing_ai_system_is_soft_witness:
  "first_failure resolvable no_ai_db transcribe_input (Some ''user-1'') = None
   \<and> map_of transcribe_input ''modulations'' = Some (PDict [(''transcribe'', PBool True)])
   \<and> printable sample_interpreter transcribe_input
   \<and> \<not> registered (systems no_ai_db) ''system-ai''
   \<and> (\<exists>res d'. simulate_start_call sample_interpreter sample_fresh transcribe_input
                   (Some ''user-1'') no_ai_db = (Inr res, d')
          \<and> success res
          \<and> ''AI_SYSTEM_MISSING'' \<in> fst ` set (errors res)
          \<and> ai_runs d' = ai_runs no_ai_db)"
proof -
  have h1: "first_failure resolvable no_ai_db transcribe_input (Some ''user-1'') = None"
    by (simp add: first_failure_def linked_def resolvable_def no_ai_db_def initial_db_def
          transcribe_input_def)
  have h2: "map_of transcribe_input ''modulations'' = Some (PDict [(''transcribe'', PBool True)])"
    by (simp add: transcribe_input_def)
  have h3: "printable sample_interpreter transcribe_input"
    by (simp add: printable_def print_exn_def sample_interpreter_def transcribe_input_def
          render_exn_unfold)
  have h4: "\<not> registered (systems no_ai_db) ''system-ai''"
    by (simp add: registered_def no_ai_db_def)
  from missing_ai_system_is_soft [OF h1 h2 h3 h4, of sample_fresh] h1 h2 h3 h4
  show ?thesis by blast
qed

subsection \<open>Recording intent and the audit trail\<close>

text \<open>
  Claim C8, as stated, fails. In \<open>blank_cpid_db\<close> a System with key \<^verbatim>\<open>system-cpid\<close>
  is registered, with the empty string as its id, the organization exists and
  \<^verbatim>\<open>user-1\<close> is its member, so for the input
  \<^verbatim>\<open>{organization_id: 'org-1', modulations: {record: True}}\<close> and actor \<^verbatim>\<open>user-1\<close> none
  of the four stated preconditions fails. Yet the run returns \<^verbatim>\<open>success = False\<close> with
  \<^verbatim>\<open>CALL_START_SYS_MISSING\<close> and writes no audit entry, neither the intent record nor
  the \<^verbatim>\<open>create\<close> entry.
\<close>

theorem record_intent_counterexample:
  "simulate_start_call sample_interpreter sample_fresh record_input (Some ''user-1'')
       blank_cpid_db =
     (Inr \<lparr>success = False, call_id = None,
           errors = [(''CALL_START_SYS_MISSING'', ''Control system not registered'')]\<rparr>,
      blank_cpid_db)
   \<and> first_failure registered blank_cpid_db record_input (Some ''user-1'') = None
   \<and> audit_logs blank_cpid_db = []"
  by (simp add: run_defs blank_cpid_db_def initial_db_def sample_fresh_def record_input_def
        first_failure_def linked_def registered_def sample_interpreter_def render_exn_unfold)

text \<open>
  Claim C8, amended. For every input with \<^verbatim>\<open>modulations = {record: True}\<close> that line 28
  can print and for which none of the four preconditions fails, the fourth read as in
  claim C4 (the last System row with key \<^verbatim>\<open>system-cpid\<close> has a non-empty id), the call
  returns \<^verbatim>\<open>success = True\<close> and appends to \<^verbatim>\<open>audit_logs\<close> exactly two entries, the one
  with action \<^verbatim>\<open>intent:recording_requested\<close> before the final one with action
  \<^verbatim>\<open>create\<close>. The state has no table of recordings, and the state afterwards differs
  from the one before only in the Call row appended to \<^verbatim>\<open>calls\<close> and in these two audit
  entries, both about the resource type \<^verbatim>\<open>calls\<close>: no Recording row is created anywhere.
\<close>

theorem record_intent_before_create:
  assumes "first_failure resolvable d input actor = None"
    and "map_of input ''modulations'' = Some (PDict [(''record'', PBool True)])"
    and "printable env input"
  shows "\<exists>res row intent final.
           simulate_start_call env fr input actor d =
             (Inr res, d\<lparr>calls := calls d @ [row],
                         audit_logs := audit_logs d @ [intent, final]\<rparr>)
         \<and> success res
         \<and> al_action intent = ''intent:recording_requested''
         \<and> al_action final = ''create''
         \<and> al_resource_type intent = ''calls'' \<and> al_resource_type final = ''calls''"
proof -
  from no_failure_passes [OF assms(1)] obtain r
    where chk: "check_preconditions d input actor = Inr (Inr r)" by blast
  let ?ms = "[(''record'', PBool True)]"
  have mods: "input_mods input = PDict ?ms"
    using assms(2) by (simp add: input_mods_def)
  let ?row = "accept_call fr (pending_call_row fr r)"
  let ?res = "\<lparr>success = True, call_id = Some (call_uuid fr), errors = []\<rparr>"
  have "simulate_start_call env fr input actor d =
          (Inr ?res, d\<lparr>calls := calls d @ [?row],
                      audit_logs := audit_logs d @
                        [intent_entry fr r, create_entry fr r ?row (PDict ?ms)]\<rparr>)"
    unfolding simulate_passed [OF assms(3) chk]
      start_effects_serialisable [OF mods example_modulations_serialisable(3)]
    by (simp add: requested_def)
  moreover have "success ?res"
    by simp
  moreover have "al_action (intent_entry fr r) = ''intent:recording_requested''"
    and "al_resource_type (intent_entry fr r) = ''calls''"
    by (simp_all add: intent_entry_def)
  moreover have "al_action (create_entry fr r ?row (PDict ?ms)) = ''create''"
    and "al_resource_type (create_entry fr r ?row (PDict ?ms)) = ''calls''"
    by (simp_all add: create_entry_def)
  ultimately show ?thesis by blast
qed

theorem record_intent_before_create_witness:
  "first_failure resolvable initial_db record_input (Some ''user-1'') = None
   \<and> map_of record_input ''modulations'' = Some (PDict [(''record'', PBool True)])
   \<and> printable sample_interpreter record_input
   \<and> (\<exists>res row intent final.
           simulate_start_call sample_interpreter sample_fresh record_input (Some ''user-1'')
               initial_db =
             (Inr res, initial_db\<lparr>calls := calls initial_db @ [row],
                         audit_logs := audit_logs initial_db @ [intent, final]\<rparr>)
         \<and> success res
         \<and> al_action intent = ''intent:recording_requested''
         \<and> al_action final = ''create''
         \<and> al_resource_type intent = ''calls'' \<and> al_resource_type final = ''calls'')"
proof -
  have h1: "first_failure resolvable initial_db record_input (Some ''user-1'') = None"
    by (simp add: first_failure_def linked_def resolvable_def initial_db_def
          record_input_def)
  have h2: "map_of record_input ''modulations'' = Some (PDict [(''record'', PBool True)])"
    by (simp add: record_input_def)
  have h3: "printable sample_interpreter record_input"
    by (simp add: printable_def print_exn_def sample_interpreter_def record_input_def
          render_exn_unfold)
  from record_intent_before_create [OF h1 h2 h3, of sample_fresh] h1 h2 h3
  show ?thesis by blast
qed




subsection \<open>Exceptions\<close>

text \<open>
  Claim C3, as stated, fails. Line 36 reads \<^verbatim>\<open>input['organization_id']\<close>: on an input
  dictionary without that key, here the empty one, the call raises \<^verbatim>\<open>KeyError\<close> and
  returns nothing.
\<close>

theorem missing_key_raises:
  "simulate_start_call sample_interpreter sample_fresh [] (Some ''user-1'') initial_db =
     (Inl (KeyError ''organization_id''), initial_db)"
  by (simp add: simulate_start_call_def check_preconditions_def print_exn_def)

text \<open>A second way to raise: a \<^verbatim>\<open>modulations\<close> entry that is not a dictionary makes
  \<^verbatim>\<open>mods.get\<close> (line 81) raise \<^verbatim>\<open>AttributeError\<close>, after the Call row was inserted and
  before any audit entry is written.\<close>

lemma modulations_not_dict_raises:
  "fst (simulate_start_call sample_interpreter sample_fresh
          [(''organization_id'', PStr ''org-1''), (''modulations'', PNone)]
          (Some ''user-1'') initial_db) = Inl (AttributeError ''get'')
   \<and> map c_status (calls (snd (simulate_start_call sample_interpreter sample_fresh
          [(''organization_id'', PStr ''org-1''), (''modulations'', PNone)]
          (Some ''user-1'') initial_db))) = [''in-progress'']
   \<and> audit_logs (snd (simulate_start_call sample_interpreter sample_fresh
          [(''organization_id'', PStr ''org-1''), (''modulations'', PNone)]
          (Some ''user-1'') initial_db)) = []"
  by (simp add: run_defs initial_db_def sample_fresh_def sample_interpreter_def
        render_exn_unfold)

text \<open>A third: \<^verbatim>\<open>json.dumps\<close> (line 23) raises on the final audit entry when the
  modulations cannot be serialised, after line 22 has appended the entry: the run
  returns nothing and leaves the Call row, the AiRun row if any, and the audit entries
  in the tables. In the model this happens where the modulations nest deeper than
  \<^verbatim>\<open>json.dumps\<close> can follow and \<^verbatim>\<open>print\<close> still can; in the code also where they hold a
  value that is no JSON value.\<close>

lemma dumps_raises_after_append:
  assumes "printable env input"
    and "check_preconditions d input actor = Inr (Inr r)"
    and "input_mods input = PDict ms"
    and "render_exn env (Suc (Suc (json_room env))) (PDict ms) = Some e"
  shows "simulate_start_call env fr input actor d =
    (Inl e,
     d\<lparr>calls := calls d @ [accept_call fr (pending_call_row fr r)],
       ai_runs := ai_runs d @
          (if requested ms ''transcribe'' \<and> truthy_str (r_sys_ai r)
           then [new_ai_run fr (the (r_sys_ai r))] else []),
       audit_logs := audit_logs d @
          (if requested ms ''record'' then [intent_entry fr r] else []) @
          [create_entry fr r (accept_call fr (pending_call_row fr r)) (PDict ms)]\<rparr>)"
  unfolding simulate_passed [OF assms(1,2)] start_effects_dict [OF assms(3)]
  using assms(4) by simp

lemma check_no_exception:
  assumes "map_of input ''organization_id'' = Some k" and "hashable k"
  shows "\<exists>x. check_preconditions d input actor = Inr x"
  using assms unfolding check_preconditions_eq
  by (simp split: option.splits)

text \<open>The runs that raise, exactly: line 28 cannot print the input; or the actor is
  non-empty, and the input lacks \<^verbatim>\<open>organization_id\<close>, or holds an unhashable value
  there, or passes the checks with a \<^verbatim>\<open>modulations\<close> entry that is not a dictionary or
  that \<^verbatim>\<open>json.dumps\<close> cannot serialise.\<close>

lemma simulate_raises_iff:
  "(\<exists>e. fst (simulate_start_call env fr input actor d) = Inl e) =
     (\<not> printable env input \<or>
      (truthy_str actor \<and>
       (case map_of input ''organization_id'' of
          None \<Rightarrow> True
        | Some k \<Rightarrow> \<not> hashable k \<or>
            ((\<exists>r. check_preconditions d input actor = Inr (Inr r)) \<and>
             (\<forall>ms. input_mods input = PDict ms \<longrightarrow> \<not> serialisable env (PDict ms))))))"
proof (cases "printable env input")
  case False
  then obtain e where "print_exn env (PDict input) = Some e"
    by (auto simp add: printable_def)
  from simulate_unprintable [OF this, of fr actor d] False show ?thesis
    by simp
next
  case pr: True
  show ?thesis
  proof (cases "check_preconditions d input actor")
    case (Inl e)
    then show ?thesis
      unfolding simulate_printable [OF pr] using pr
      by (auto simp add: check_preconditions_eq split: if_splits option.splits)
  next
    case (Inr x)
    show ?thesis
    proof (cases x)
      case (Inl err)
      with Inr show ?thesis
        unfolding simulate_printable [OF pr] using pr
        by (auto simp add: check_preconditions_eq split: if_splits option.splits)
    next
      case r: (Inr r)
      with Inr have passed: "check_preconditions d input actor = Inr (Inr r)" by simp
      from check_passed(1,2) [OF passed] obtain k
        where "truthy_str actor" and "map_of input ''organization_id'' = Some (PStr k)"
        by blast
      moreover have "(\<exists>e. fst (start_effects env fr input r d) = Inl e)
                       = (\<forall>ms. input_mods input = PDict ms \<longrightarrow> \<not> serialisable env (PDict ms))"
      proof (cases "\<exists>ms. input_mods input = PDict ms")
        case True
        then obtain ms where "input_mods input = PDict ms" by blast
        then show ?thesis
          by (auto simp add: start_effects_dict serialisable_def split: option.splits)
      next
        case False
        then show ?thesis by (simp add: start_effects_not_dict)
      qed
      ultimately show ?thesis
        using passed pr by (simp add: simulate_passed)
    qed
  qed
qed

text \<open>
  Claim C3, amended. For every input dictionary of JSON values that has an
  \<^verbatim>\<open>organization_id\<close> entry with a hashable value, whose \<^verbatim>\<open>modulations\<close> entry, if
  present, is a dictionary, and that the interpreter can convert to text (\<^verbatim>\<open>print\<close> at
  line 28 raises nothing on the input, \<^verbatim>\<open>json.dumps\<close> at line 23 raises nothing on the
  modulations: no integer has more digits than the interpreter converts and the nesting
  stays within its recursion limit), and for every actor and state,
  \<^verbatim>\<open>simulate_start_call\<close> raises no exception: it returns a result, and a result with
  \<^verbatim>\<open>success = False\<close> carries its failure as a single \<open>(code, message)\<close> pair in
  \<^verbatim>\<open>errors\<close>.
\<close>

theorem no_exception_on_shaped_input:
  assumes "printable env input"
    and "map_of input ''organization_id'' = Some k" and "hashable k"
    and "input_mods input = PDict ms" and "serialisable env (PDict ms)"
  shows "\<exists>res d'. simulate_start_call env fr input actor d = (Inr res, d')
           \<and> (success res \<or> (\<exists>c msg. errors res = [(c, msg)]))"
proof -
  from check_no_exception [OF assms(2,3)] obtain x
    where chk: "check_preconditions d input actor = Inr x" by blast
  show ?thesis
  proof (cases x)
    case (Inl err)
    with chk show ?thesis
      unfolding simulate_printable [OF assms(1)] by (cases err) simp
  next
    case (Inr r)
    with chk have passed: "check_preconditions d input actor = Inr (Inr r)" by simp
    show ?thesis
      unfolding simulate_passed [OF assms(1) passed]
        start_effects_serialisable [OF assms(4,5)]
      by simp
  qed
qed

theorem no_exception_on_shaped_input_witness:
  "printable sample_interpreter example_input
   \<and> map_of example_input ''organization_id'' = Some (PStr ''org-1'')
   \<and> hashable (PStr ''org-1'')
   \<and> input_mods example_input = PDict [(''record'', PBool True), (''transcribe'', PBool True)]
   \<and> serialisable sample_interpreter
       (PDict [(''record'', PBool True), (''transcribe'', PBool True)])
   \<and> (\<exists>res d'. simulate_start_call sample_interpreter sample_fresh example_input
                    (Some ''user-1'') initial_db = (Inr res, d')
           \<and> (success res \<or> (\<exists>c msg. errors res = [(c, msg)])))"
proof -
  have h1: "printable sample_interpreter example_input"
    by (simp add: printable_def print_exn_def sample_interpreter_def example_input_def
          render_exn_unfold)
  have h2: "map_of example_input ''organization_id'' = Some (PStr ''org-1'')"
    by (simp add: example_input_def)
  have h3: "hashable (PStr ''org-1'')"
    by simp
  have h4: "input_mods example_input =
              PDict [(''record'', PBool True), (''transcribe'', PBool True)]"
    by (simp add: input_mods_def example_input_def)
  have h5: "serialisable sample_interpreter
              (PDict [(''record'', PBool True), (''transcribe'', PBool True)])"
    by (simp add: serialisable_def sample_interpreter_def render_exn_unfold)
  from no_exception_on_shaped_input [OF h1 h2 h3 h4 h5] h1 h2 h3 h4 h5 show ?thesis
    by blast
qed

section \<open>Properties of the permission-matrix builder\<close>

subsection \<open>Dictionary assignment\<close>

lemma set_dict_set: "set (dict_set kvs k v) \<subseteq> insert (k, v) (set kvs)"
  by (induction kvs) (auto split: if_splits)

subsection \<open>The filter and the loops\<close>

text \<open>The comprehension of line 39 keeps columns of the schema only.\<close>

lemma filter_columns_subset:
  "filter_columns schema_cols items = Inr filtered \<Longrightarrow> set filtered \<subseteq> set schema_cols"
  by (induction items arbitrary: filtered)
     (auto split: if_splits sum.splits pyval.splits)

lemma map_fst_dict_set:
  "map fst (dict_set kvs k v) =
     (if k \<in> set (map fst kvs) then map fst kvs else map fst kvs @ [k])"
  by (induction kvs) force+

lemma fill_ops_keys:
  assumes "fill_ops schema_cols perms os entry = Inr entry'"
    and "distinct (map fst entry @ os)"
  shows "map fst entry' = map fst entry @ os"
  using assms
proof (induction os arbitrary: entry)
  case Nil
  then show ?case by simp
next
  case (Cons op os)
  from Cons.prems(1) obtain filtered
    where rest: "fill_ops schema_cols perms os (dict_set entry op (Columns filtered)) = Inr entry'"
    by (auto split: sum.splits)
  have keys: "map fst (dict_set entry op (Columns filtered)) = map fst entry @ [op]"
    using Cons.prems(2) by (simp add: map_fst_dict_set)
  with Cons.prems(2) have "distinct (map fst (dict_set entry op (Columns filtered)) @ os)"
    by simp
  from Cons.IH [OF rest this] keys show ?case by simp
qed

lemma entry_ok_dict_set:
  assumes "entry_ok schema_cols entry"
    and "op = ''allowed_modules'' \<or> (\<exists>cs. v = Columns cs \<and> set cs \<subseteq> set schema_cols)"
  shows "entry_ok schema_cols (dict_set entry op v)"
  using assms set_dict_set [of entry op v]
  unfolding entry_ok_def by blast

lemma fill_ops_ok:
  assumes "fill_ops schema_cols perms os entry = Inr entry'" and "entry_ok schema_cols entry"
  shows "entry_ok schema_cols entry'"
  using assms
proof (induction os arbitrary: entry)
  case Nil
  then show ?case by simp
next
  case (Cons op os)
  from Cons.prems(1) obtain items filtered
    where "filter_columns schema_cols items = Inr filtered"
      and rest: "fill_ops schema_cols perms os (dict_set entry op (Columns filtered)) = Inr entry'"
    by (auto split: sum.splits)
  then have "set filtered \<subseteq> set schema_cols"
    by (simp add: filter_columns_subset)
  then have "entry_ok schema_cols (dict_set entry op (Columns filtered))"
    using Cons.prems(2) by (simp add: entry_ok_dict_set)
  with rest show ?case by (rule Cons.IH)
qed

lemma matrix_ok_dict_set:
  assumes "matrix_ok tables updated" and "map_of tables tbl = Some schema_cols"
    and "entry_ok schema_cols entry" and "map fst entry = ops @ [''allowed_modules'']"
  shows "matrix_ok tables (dict_set updated tbl entry)"
  using assms set_dict_set [of updated tbl entry]
  unfolding matrix_ok_def by blast

lemma build_updated_ok:
  assumes "build_updated tables items updated = Inr updated'" and "matrix_ok tables updated"
  shows "matrix_ok tables updated'"
  using assms
proof (induction tables items updated rule: build_updated.induct)
  case (1 tables updated)
  then show ?case by simp
next
  case (2 tables tbl perms rest updated)
  show ?case
  proof (cases "map_of tables tbl")
    case None
    with 2 show ?thesis by simp
  next
    case (Some schema_cols)
    with "2.prems"(1) obtain entry
      where fill: "fill_ops schema_cols perms ops [] = Inr entry"
        and rest: "build_updated tables rest
                     (dict_set updated tbl (dict_set entry ''allowed_modules'' allowed_modules))
                   = Inr updated'"
      by (auto split: sum.splits)
    have "entry_ok schema_cols []"
      by (simp add: entry_ok_def)
    with fill have "entry_ok schema_cols entry"
      by (rule fill_ops_ok)
    then have "entry_ok schema_cols (dict_set entry ''allowed_modules'' allowed_modules)"
      by (simp add: entry_ok_dict_set)
    moreover have "map fst entry = ops"
      using fill_ops_keys [OF fill] by (simp add: ops_def)
    then have "map fst (dict_set entry ''allowed_modules'' allowed_modules)
                 = ops @ [''allowed_modules'']"
      by (simp add: map_fst_dict_set ops_def)
    ultimately
    have "matrix_ok tables
            (dict_set updated tbl (dict_set entry ''allowed_modules'' allowed_modules))"
      using "2.prems"(2) Some by (simp add: matrix_ok_dict_set)
    with "2.IH"(2) [OF Some fill rest] show ?thesis .
  qed
qed

lemma default_entry_ok: "entry_ok schema_cols (default_entry schema_cols)"
  by (simp add: default_entry_def ops_def entry_ok_def)

lemma default_entry_keys: "map fst (default_entry schema_cols) = ops @ [''allowed_modules'']"
  by (simp add: default_entry_def ops_def)

lemma add_required_ok:
  assumes "matrix_ok tables updated"
  shows "matrix_ok tables (add_required tables required updated)"
  using assms
proof (induction required arbitrary: updated)
  case Nil
  then show ?case by simp
next
  case (Cons r rs)
  have "matrix_ok tables
          (case (map_of updated r, map_of tables r) of
             (None, Some schema_cols) \<Rightarrow> dict_set updated r (default_entry schema_cols)
           | _ \<Rightarrow> updated)"
    using Cons.prems
    by (auto split: option.splits
          intro: matrix_ok_dict_set default_entry_ok default_entry_keys)
  then show ?case
    by (simp add: Cons.IH)
qed

subsection \<open>The validation\<close>

lemma table_errors_ok:
  assumes "map_of tables tbl = Some schema_cols" and "entry_ok schema_cols entry"
  shows "table_errors tables tbl entry = []"
proof -
  have "set (perm_items v) \<subseteq> set schema_cols"
    if "(op, v) \<in> set entry" and "op \<noteq> ''allowed_modules''" for op v
  proof -
    from assms(2) that obtain cs where "v = Columns cs" and "set cs \<subseteq> set schema_cols"
      unfolding entry_ok_def by blast
    then show ?thesis by simp
  qed
  then show ?thesis
    using assms(1) unfolding table_errors_def
    by (auto simp add: filter_empty_conv) blast
qed

lemma validate_ok:
  assumes "matrix_ok tables updated"
  shows "validate tables updated = []"
  using assms
  unfolding validate_def matrix_ok_def
  by (auto simp add: table_errors_ok)

lemma build_permission_matrix_ok:
  assumes "build_permission_matrix tables tool = Inr out"
  shows "matrix_ok tables (out_matrix out)"
    and "validation_errors (out_validation out) = validate tables (out_matrix out)"
proof -
  from assms obtain items updated0
    where "tool = PDict items"
      and built: "build_updated tables items [] = Inr updated0"
      and out: "out = \<lparr>out_matrix = add_required tables [''calls'', ''ai_runs''] updated0,
                       out_validation =
                         \<lparr>tables_in_schema = sort (map fst tables),
                           validation_errors =
                             validate tables
                               (add_required tables [''calls'', ''ai_runs''] updated0)\<rparr>\<rparr>"
    by (auto simp add: build_permission_matrix_def Let_def split: pyval.splits sum.splits)
  have "matrix_ok tables []"
    by (simp add: matrix_ok_def)
  with built have "matrix_ok tables updated0"
    by (rule build_updated_ok)
  then have "matrix_ok tables (add_required tables [''calls'', ''ai_runs''] updated0)"
    by (rule add_required_ok)
  with out show "matrix_ok tables (out_matrix out)"
    by simp
  from out show "validation_errors (out_validation out) = validate tables (out_matrix out)"
    by simp
qed

lemma entry_lookup:
  assumes "entry_ok schema_cols entry" and "map fst entry = ops @ [''allowed_modules'']"
    and "op \<in> set ops"
  shows "\<exists>cs. map_of entry op = Some (Columns cs) \<and> set cs \<subseteq> set schema_cols"
proof -
  from assms(2,3) have "op \<in> set (map fst entry)"
    by simp
  then have "map_of entry op \<noteq> None"
    by (simp add: map_of_eq_None_iff)
  then obtain v where v: "map_of entry op = Some v"
    by blast
  then have "(op, v) \<in> set entry"
    by (rule map_of_SomeD)
  moreover have "op \<noteq> ''allowed_modules''"
    using assms(3) by (auto simp add: ops_def)
  ultimately obtain cs where "v = Columns cs" and "set cs \<subseteq> set schema_cols"
    using assms(1) unfolding entry_ok_def by blast
  with v show ?thesis by simp
qed

text \<open>
  Claim C9. Whatever the parsed schema \<^verbatim>\<open>tables\<close> and the permission table \<^verbatim>\<open>tool\<close>,
  when the script emits its output (it raises, and prints nothing, on a permission table
  of the wrong shape), every table of the emitted matrix is a table of the schema, its
  entry has the keys \<^verbatim>\<open>GET\<close>, \<^verbatim>\<open>POST\<close>, \<^verbatim>\<open>PUT\<close>, \<^verbatim>\<open>DELETE\<close> and
  \<^verbatim>\<open>allowed_modules\<close>, and the list under each of the four operations holds only columns
  that the schema has for that table; and the \<^verbatim>\<open>errors\<close> list of the emitted
  \<^verbatim>\<open>validation\<close> section is empty.
\<close>

theorem matrix_lists_only_schema_columns:
  assumes "build_permission_matrix tables tool = Inr out"
  shows "(\<forall>(tbl, entry) \<in> set (out_matrix out).
            map fst entry = ops @ [''allowed_modules''] \<and>
            (\<exists>schema_cols. map_of tables tbl = Some schema_cols \<and>
               (\<forall>op \<in> set ops.
                  \<exists>cs. map_of entry op = Some (Columns cs) \<and> set cs \<subseteq> set schema_cols)))
       \<and> validation_errors (out_validation out) = []"
proof -
  from build_permission_matrix_ok [OF assms]
  have ok: "matrix_ok tables (out_matrix out)"
    and errs: "validation_errors (out_validation out) = validate tables (out_matrix out)"
    by simp_all
  from ok have "validate tables (out_matrix out) = []"
    by (rule validate_ok)
  with errs have "validation_errors (out_validation out) = []"
    by simp
  moreover have "\<forall>(tbl, entry) \<in> set (out_matrix out).
            map fst entry = ops @ [''allowed_modules''] \<and>
            (\<exists>schema_cols. map_of tables tbl = Some schema_cols \<and>
               (\<forall>op \<in> set ops.
                  \<exists>cs. map_of entry op = Some (Columns cs) \<and> set cs \<subseteq> set schema_cols))"
  proof (clarify, intro conjI)
    fix tbl entry
    assume "(tbl, entry) \<in> set (out_matrix out)"
    with ok obtain schema_cols
      where keys: "map fst entry = ops @ [''allowed_modules'']"
        and cols: "map_of tables tbl = Some schema_cols"
        and entry: "entry_ok schema_cols entry"
      unfolding matrix_ok_def by blast
    from keys show "map fst entry = ops @ [''allowed_modules'']" .
    from entry_lookup [OF entry keys] cols
    show "\<exists>schema_cols. map_of tables tbl = Some schema_cols \<and>
            (\<forall>op \<in> set ops.
               \<exists>cs. map_of entry op = Some (Columns cs) \<and> set cs \<subseteq> set schema_cols)"
      by blast
  qed
  ultimately show ?thesis by simp
qed

theorem matrix_lists_only_schema_columns_witness:
  "build_permission_matrix sample_tables sample_tool =
     Inr \<lparr>out_matrix =
            [(''calls'',
              [(''GET'', Columns [''id'', ''status'']), (''POST'', Columns []),
               (''PUT'', Columns [''status'']), (''DELETE'', Columns []),
               (''allowed_modules'', allowed_modules)]),
             (''ai_runs'',
              [(''GET'', Columns [''id'', ''call_id'']), (''POST'', Columns []),
               (''PUT'', Columns []), (''DELETE'', Columns []),
               (''allowed_modules'', allowed_modules)])],
          out_validation =
            \<lparr>tables_in_schema = [''ai_runs'', ''calls''], validation_errors = []\<rparr>\<rparr>"
proof -
  have sorted: "sort (map fst sample_tables) = [''ai_runs'', ''calls'']"
    by (simp add: sample_tables_def)
  have "\<exists>out. build_permission_matrix sample_tables sample_tool = Inr out"
    by (simp add: build_permission_matrix_def sample_tables_def sample_tool_def ops_def Let_def)
  then obtain out where out: "build_permission_matrix sample_tables sample_tool = Inr out"
    by blast
  from matrix_lists_only_schema_columns [OF out]
  have "validation_errors (out_validation out) = []"
    by simp
  moreover have "out_matrix out =
            [(''calls'',
              [(''GET'', Columns [''id'', ''status'']), (''POST'', Columns []),
               (''PUT'', Columns [''status'']), (''DELETE'', Columns []),
               (''allowed_modules'', allowed_modules)]),
             (''ai_runs'',
              [(''GET'', Columns [''id'', ''call_id'']), (''POST'', Columns []),
               (''PUT'', Columns []), (''DELETE'', Columns []),
               (''allowed_modules'', allowed_modules)])]"
    and "tables_in_schema (out_validation out) = [''ai_runs'', ''calls'']"
    using out sorted
    by (auto simp add: build_permission_matrix_def sample_tables_def sample_tool_def ops_def
          default_entry_def Let_def)
  ultimately show ?thesis
    using out by (cases out, rename_tac m v, case_tac v) simp
qed

end
